theory Spec2Isabelle
  imports Main "HOL-Library.AList"
begin

section \<open>Python values\<close>

text \<open>
  The values that \<open>r.json()\<close> decodes and that the callers pass as keyword arguments.
  A decoded object is an association list in key order. Floating-point numbers are left
  out.
\<close>

datatype json =
    JNull
  | JBool bool
  | JInt int
  | JStr string
  | JArr "json list"
  | JObj "(string \<times> json) list"

type_synonym dict = "(string \<times> json) list"

text \<open>Truth value of a Python object, as \<open>if x\<close> and \<open>not x\<close> test it.\<close>

fun truthy :: "json \<Rightarrow> bool" where
  "truthy JNull = False"
| "truthy (JBool b) = b"
| "truthy (JInt i) = (i \<noteq> 0)"
| "truthy (JStr s) = (s \<noteq> [])"
| "truthy (JArr xs) = (xs \<noteq> [])"
| "truthy (JObj kvs) = (kvs \<noteq> [])"

text \<open>
  The exceptions of \<open>theExceptions\<close> that this file raises, with their constructor
  arguments, and the built-in exceptions that its statements raise. \<open>NotModelled\<close> marks
  the places where the source goes on and this model does not follow it: a collection or
  graph name in a listing that is not a string (the registries of this model are keyed by
  strings), and a call by name of a method other than the URL methods.
\<close>

datatype error =
    UpdateError json json
  | CreationError json "json option"
  | AQLQueryError json string json
  | TransactionError json json json
  | ValueError string
  | KeyError string
  | TypeError
  | AttributeError string
  | NotModelled

text \<open>\<open>d[k]\<close>: a missing key raises KeyError, a value that is no dict raises TypeError.\<close>

fun subscript :: "json \<Rightarrow> string \<Rightarrow> error + json" where
  "subscript (JObj kvs) k =
     (case map_of kvs k of None \<Rightarrow> Inl (KeyError k) | Some v \<Rightarrow> Inr v)"
| "subscript _ k = Inl TypeError"

text \<open>\<open>d.get(k)\<close>: None for a missing key; only a dict has the method.\<close>

fun dict_get :: "json \<Rightarrow> string \<Rightarrow> error + json" where
  "dict_get (JObj kvs) k =
     (case map_of kvs k of None \<Rightarrow> Inr JNull | Some v \<Rightarrow> Inr v)"
| "dict_get _ k = Inl (AttributeError ''get'')"

text \<open>\<open>for x in v\<close>: a list gives its elements, a dict its keys, a string its characters.\<close>

fun iterate :: "json \<Rightarrow> error + json list" where
  "iterate (JArr xs) = Inr xs"
| "iterate (JObj kvs) = Inr (map (\<lambda>kv. JStr (fst kv)) kvs)"
| "iterate (JStr s) = Inr (map (\<lambda>c. JStr [c]) s)"
| "iterate _ = Inl TypeError"

text \<open>\<open>v == c\<close> for an integer constant \<open>c\<close>; True and False compare as 1 and 0.\<close>

fun equals_int :: "json \<Rightarrow> int \<Rightarrow> bool" where
  "equals_int (JInt i) c = (i = c)"
| "equals_int (JBool b) c = ((if b then 1 else 0) = c)"
| "equals_int _ c = False"

function str_of_nat :: "nat \<Rightarrow> string" where
  "str_of_nat n =
     (if n < 10 then [char_of (48 + n)]
      else str_of_nat (n div 10) @ [char_of (48 + n mod 10)])"
  by pat_completeness auto
termination
  by (relation "measure id") auto

definition str_of_int :: "int \<Rightarrow> string" where
  "str_of_int i = (if i < 0 then CHR ''-'' # str_of_nat (nat (- i)) else str_of_nat (nat i))"

text \<open>\<open>"%d" % v\<close>: a number is required.\<close>

fun format_d :: "json \<Rightarrow> error + string" where
  "format_d (JInt i) = Inr (str_of_int i)"
| "format_d (JBool b) = Inr (if b then ''1'' else ''0'')"
| "format_d _ = Inl TypeError"

section \<open>The collaborators of the Database\<close>

text \<open>
  A request is a GET of a URL or a POST of a body to a URL. The body is the value that the
  source passes to \<open>json.dumps\<close>; its serialisation to text is not modelled.
\<close>

datatype request = GET string | POST string json

record response =
  status_code :: int
  r_json :: json

text \<open>
  A collection class as this file uses it: its name, the two tests of line 120
  (\<open>issubclass(colClass, COL.Edges)\<close> and \<open>colClass.__class__ is COL.Edges\<close>) and its
  \<open>_properties\<close> attribute, None when the class has none (AttributeError).
\<close>

record col_class =
  cls_name :: string
  issubclass_Edges :: bool
  class_is_Edges :: bool
  cls_properties :: "dict option"

text \<open>\<open>colClass(self, colData)\<close>: an object of that class built from that descriptor.\<close>

record collection_obj =
  col_class :: col_class
  col_data :: json

record edgeDefinition =
  edgesCollection :: string
  fromCollections :: "string list"
  toCollections :: "string list"

record graph_class =
  gcls_name :: string
  edgeDefinitions :: "edgeDefinition list"
  orphanedCollections :: "string list"

record graph_obj =
  graph_class :: graph_class
  graph_data :: json

text \<open>
  What happens outside the Database object, in order: the requests sent through
  \<open>connection.session\<close>, the warnings printed, the progress reports given to the
  connection and the \<open>delete()\<close> calls on graph and collection objects.
\<close>

datatype event =
    Request request
  | Print string
  | ReportStart json
  | ReportItem
  | DeleteGraph string graph_obj
  | DeleteCollection string collection_obj

text \<open>
  The connection: its endpoint URL and its session, which answers a request given all
  that happened before.
\<close>

record connection =
  getEnpointURL :: string
  session :: "event list \<Rightarrow> request \<Rightarrow> response"

text \<open>
  The modules \<open>collection\<close> (COL), \<open>consts\<close> (CONST) and \<open>graph\<close> (GR) are not part of
  this file; what the Database reads from them is a parameter. The two class lookups
  return None where the source's raise KeyError. \<open>obj_name\<close> is the \<open>name\<close> attribute
  that a collection's constructor sets.
\<close>

record modules =
  COLLECTION_EDGE_TYPE :: int
  COLLECTION_DOCUMENT_TYPE :: int
  getCollectionClass :: "string \<Rightarrow> col_class option"
  SystemCollection :: col_class
  Edges :: col_class
  Collection :: col_class
  isCollection :: "string \<Rightarrow> bool"
  isEdgeCollection :: "string \<Rightarrow> bool"
  obj_name :: "collection_obj \<Rightarrow> string"
  getGraphClass :: "string \<Rightarrow> graph_class option"
  Graph :: graph_class
  toJson :: "edgeDefinition \<Rightarrow> json"

section \<open>The Database\<close>

text \<open>
  The attributes of a Database, with the trace of what it has done to the outside so
  far. The two registries are Python dicts: association lists in insertion order, written
  with \<open>AList.update\<close>, which replaces the value of a key in place or appends a new key.
\<close>

record database =
  name :: string
  connection :: connection
  collections :: "(string \<times> collection_obj) list"
  graphs :: "(string \<times> graph_obj) list"
  trace :: "event list"

definition session_get :: "database \<Rightarrow> string \<Rightarrow> response \<times> database" where
  "session_get self url =
     (session (connection self) (trace self) (GET url),
      self\<lparr>trace := trace self @ [Request (GET url)]\<rparr>)"

definition session_post :: "database \<Rightarrow> string \<Rightarrow> json \<Rightarrow> response \<times> database" where
  "session_post self url payload =
     (session (connection self) (trace self) (POST url payload),
      self\<lparr>trace := trace self @ [Request (POST url payload)]\<rparr>)"

definition getURL :: "database \<Rightarrow> string" where
  "getURL self = getEnpointURL (connection self) @ ''/_db/'' @ name self @ ''/_api''"

definition getCollectionsURL :: "database \<Rightarrow> string" where
  "getCollectionsURL self = getURL self @ ''/collection''"

text \<open>
  Line 36 of the source reads \<open>def getCursorsURL()(self)\<close>, which Python does not accept
  as the definition of a method. The model takes class Database without a method of this
  name: there is no function for it here, and the list of the class's methods below does
  not have it.
\<close>

definition getExplainURL :: "database \<Rightarrow> string" where
  "getExplainURL self = getURL self @ ''/explain''"

definition getGraphsURL :: "database \<Rightarrow> string" where
  "getGraphsURL self = getURL self @ ''/gharial''"

definition getTransactionURL :: "database \<Rightarrow> string" where
  "getTransactionURL self = getURL self @ ''/transaction''"

subsection \<open>reloadCollections, reloadGraphs, reload\<close>

definition set_collection :: "database \<Rightarrow> string \<Rightarrow> collection_obj \<Rightarrow> database" where
  "set_collection self colName colObj =
     self\<lparr>collections := AList.update colName colObj (collections self)\<rparr>"

definition unknown_type_warning :: "string \<Rightarrow> string" where
  "unknown_type_warning d =
     ''Warning!! Collection of unknown type: '' @ d @
     '', trying to load it as Collection nonetheless.''"

text \<open>The body of the loop of lines 55 to 72, for one element of the listing.\<close>

definition load_collection :: "modules \<Rightarrow> database \<Rightarrow> json \<Rightarrow> (error + unit) \<times> database" where
  "load_collection M self colData =
     (case subscript colData ''name'' of
        Inl e \<Rightarrow> (Inl e, self)
      | Inr (JStr colName) \<Rightarrow>
          (case subscript colData ''isSystem'' of
             Inl e \<Rightarrow> (Inl e, self)
           | Inr isSystem \<Rightarrow>
               if truthy isSystem then
                 (Inr (), set_collection self colName
                            \<lparr>col_class = SystemCollection M, col_data = colData\<rparr>)
               else
                 (case getCollectionClass M colName of
                    Some colClass \<Rightarrow>
                      (Inr (), set_collection self colName
                                 \<lparr>col_class = colClass, col_data = colData\<rparr>)
                  | None \<Rightarrow>
                      (case subscript colData ''type'' of
                         Inl e \<Rightarrow> (Inl e, self)
                       | Inr t \<Rightarrow>
                           if equals_int t (COLLECTION_EDGE_TYPE M) then
                             (Inr (), set_collection self colName
                                        \<lparr>col_class = Edges M, col_data = colData\<rparr>)
                           else if equals_int t (COLLECTION_DOCUMENT_TYPE M) then
                             (Inr (), set_collection self colName
                                        \<lparr>col_class = Collection M, col_data = colData\<rparr>)
                           else
                             (case format_d t of
                                Inl e \<Rightarrow> (Inl e, self)
                              | Inr d \<Rightarrow>
                                  (Inr (), set_collection
                                     (self\<lparr>trace := trace self @ [Print (unknown_type_warning d)]\<rparr>)
                                     colName \<lparr>col_class = Collection M, col_data = colData\<rparr>)))))
      | Inr _ \<Rightarrow> (Inl NotModelled, self))"

fun load_collections :: "modules \<Rightarrow> database \<Rightarrow> json list \<Rightarrow> (error + unit) \<times> database" where
  "load_collections M self [] = (Inr (), self)"
| "load_collections M self (colData # rest) =
     (case load_collection M self colData of
        (Inl e, self') \<Rightarrow> (Inl e, self')
      | (Inr _, self') \<Rightarrow> load_collections M self' rest)"

definition reloadCollections :: "modules \<Rightarrow> database \<Rightarrow> (error + unit) \<times> database" where
  "reloadCollections M self =
     (case session_get self (getCollectionsURL self) of (r, self1) \<Rightarrow>
        let data = r_json r in
        if status_code r = 200 then
          (let self2 = self1\<lparr>collections := []\<rparr> in
           case subscript data ''result'' of
             Inl e \<Rightarrow> (Inl e, self2)
           | Inr res \<Rightarrow>
               (case iterate res of
                  Inl e \<Rightarrow> (Inl e, self2)
                | Inr items \<Rightarrow> load_collections M self2 items))
        else
          (case subscript data ''errorMessage'' of
             Inl e \<Rightarrow> (Inl e, self1)
           | Inr msg \<Rightarrow> (Inl (UpdateError msg data), self1)))"

text \<open>
  The body of the loop of lines 82 to 86. A missing \<open>_key\<close> raises KeyError inside the
  \<open>try\<close>, is caught, and raises again in the handler.
\<close>

definition load_graph :: "modules \<Rightarrow> database \<Rightarrow> json \<Rightarrow> (error + unit) \<times> database" where
  "load_graph M self graphData =
     (case subscript graphData ''_key'' of
        Inl e \<Rightarrow> (Inl e, self)
      | Inr (JStr k) \<Rightarrow>
          (case getGraphClass M k of
             Some graphClass \<Rightarrow>
               (Inr (), self\<lparr>graphs := AList.update k
                  \<lparr>graph_class = graphClass, graph_data = graphData\<rparr> (graphs self)\<rparr>)
           | None \<Rightarrow>
               (Inr (), self\<lparr>graphs := AList.update k
                  \<lparr>graph_class = Graph M, graph_data = graphData\<rparr> (graphs self)\<rparr>))
      | Inr _ \<Rightarrow> (Inl NotModelled, self))"

fun load_graphs :: "modules \<Rightarrow> database \<Rightarrow> json list \<Rightarrow> (error + unit) \<times> database" where
  "load_graphs M self [] = (Inr (), self)"
| "load_graphs M self (graphData # rest) =
     (case load_graph M self graphData of
        (Inl e, self') \<Rightarrow> (Inl e, self')
      | (Inr _, self') \<Rightarrow> load_graphs M self' rest)"

definition reloadGraphs :: "modules \<Rightarrow> database \<Rightarrow> (error + unit) \<times> database" where
  "reloadGraphs M self =
     (case session_get self (getGraphsURL self) of (r, self1) \<Rightarrow>
        let data = r_json r in
        if status_code r = 200 then
          (let self2 = self1\<lparr>graphs := []\<rparr> in
           case subscript data ''graphs'' of
             Inl e \<Rightarrow> (Inl e, self2)
           | Inr gs \<Rightarrow>
               (case iterate gs of
                  Inl e \<Rightarrow> (Inl e, self2)
                | Inr items \<Rightarrow> load_graphs M self2 items))
        else
          (case subscript data ''errorMessage'' of
             Inl e \<Rightarrow> (Inl e, self1)
           | Inr msg \<Rightarrow> (Inl (UpdateError msg data), self1)))"

definition reload :: "modules \<Rightarrow> database \<Rightarrow> (error + unit) \<times> database" where
  "reload M self =
     (case reloadCollections M self of
        (Inl e, self') \<Rightarrow> (Inl e, self')
      | (Inr _, self') \<Rightarrow> reloadGraphs M self')"

subsection \<open>Indexed lookup\<close>

definition not_found :: "string \<Rightarrow> error" where
  "not_found collectionName =
     KeyError (''Can'' @ [CHR 0x27] @ ''t find any collection named : '' @ collectionName)"

definition getitem :: "modules \<Rightarrow> database \<Rightarrow> string \<Rightarrow> (error + collection_obj) \<times> database" where
  "getitem M self collectionName =
     (case map_of (collections self) collectionName of
        Some c \<Rightarrow> (Inr c, self)
      | None \<Rightarrow>
          (case reload M self of
             (Inl e, self') \<Rightarrow> (Inl e, self')
           | (Inr _, self') \<Rightarrow>
               (case map_of (collections self') collectionName of
                  Some c \<Rightarrow> (Inr c, self')
                | None \<Rightarrow> (Inl (not_found collectionName), self'))))"

subsection \<open>createCollection\<close>

definition generic_name_missing :: string where
  "generic_name_missing =
     ''a '' @ [CHR 0x27] @ ''name'' @ [CHR 0x27] @
     '' argument mush be supplied if you want to create a generic collection''"

definition already_has :: "database \<Rightarrow> string \<Rightarrow> error" where
  "already_has self colName =
     CreationError
       (JStr (''Database '' @ name self @ '' already has a collection named '' @ colName)) None"

text \<open>
  Lines 103 to 109: the caller's keyword arguments when there is at least one, the
  class's \<open>_properties\<close> otherwise, an empty dict when the class has none.
\<close>

definition initial_properties :: "col_class \<Rightarrow> dict \<Rightarrow> dict" where
  "initial_properties colClass colProperties =
     (if length colProperties > 0 then colProperties
      else (case cls_properties colClass of Some d \<Rightarrow> d | None \<Rightarrow> []))"

text \<open>Lines 111 to 115.\<close>

definition named_properties :: "string \<Rightarrow> dict \<Rightarrow> error + dict" where
  "named_properties className colProperties =
     (if className \<noteq> ''Collection'' \<and> className \<noteq> ''Edges'' then
        Inr (AList.update ''name'' (JStr className) colProperties)
      else if map_of colProperties ''name'' = None then
        Inl (ValueError generic_name_missing)
      else Inr colProperties)"

text \<open>
  Lines 117 and 118, \<open>colProperties['name'] in self.collections\<close>: a list or a dict is
  not hashable, and no other value than a string is a key of the registry.
\<close>

definition check_unused :: "database \<Rightarrow> dict \<Rightarrow> error option" where
  "check_unused self colProperties =
     (case map_of colProperties ''name'' of
        None \<Rightarrow> Some (KeyError ''name'')
      | Some (JStr colName) \<Rightarrow>
          (if map_of (collections self) colName \<noteq> None then Some (already_has self colName)
           else None)
      | Some (JArr _) \<Rightarrow> Some TypeError
      | Some (JObj _) \<Rightarrow> Some TypeError
      | Some _ \<Rightarrow> None)"

text \<open>Lines 120 to 123.\<close>

definition wire_type :: "modules \<Rightarrow> col_class \<Rightarrow> int" where
  "wire_type M colClass =
     (if issubclass_Edges colClass \<or> class_is_Edges colClass then COLLECTION_EDGE_TYPE M
      else COLLECTION_DOCUMENT_TYPE M)"

text \<open>
  Lines 101 to 125 of createCollection: everything before the request. The result is the
  resolved class and the properties that \<open>json.dumps\<close> serialises into the POST body.
\<close>

definition createCollection_payload ::
  "modules \<Rightarrow> database \<Rightarrow> string \<Rightarrow> dict \<Rightarrow> error + (col_class \<times> dict)" where
  "createCollection_payload M self className colProperties =
     (case getCollectionClass M className of
        None \<Rightarrow> Inl (KeyError className)
      | Some colClass \<Rightarrow>
          (case named_properties className (initial_properties colClass colProperties) of
             Inl e \<Rightarrow> Inl e
           | Inr props \<Rightarrow>
               (case check_unused self props of
                  Some e \<Rightarrow> Inl e
                | None \<Rightarrow>
                    Inr (colClass, AList.update ''type'' (JInt (wire_type M colClass)) props))))"

definition creation_failed :: "json \<Rightarrow> error" where
  "creation_failed data =
     (case subscript data ''errorMessage'' of
        Inl e \<Rightarrow> e
      | Inr msg \<Rightarrow> CreationError msg (Some data))"

definition createCollection ::
  "modules \<Rightarrow> database \<Rightarrow> string \<Rightarrow> dict \<Rightarrow> (error + collection_obj) \<times> database" where
  "createCollection M self className colProperties =
     (case createCollection_payload M self className colProperties of
        Inl e \<Rightarrow> (Inl e, self)
      | Inr (colClass, props) \<Rightarrow>
          (case session_post self (getCollectionsURL self) (JObj props) of (r, self1) \<Rightarrow>
             let data = r_json r in
             if status_code r = 200 then
               (case subscript data ''error'' of
                  Inl e \<Rightarrow> (Inl e, self1)
                | Inr err \<Rightarrow>
                    if \<not> truthy err then
                      (let col = \<lparr>col_class = colClass, col_data = data\<rparr>
                       in (Inr col, set_collection self1 (obj_name M col) col))
                    else (Inl (creation_failed data), self1))
             else (Inl (creation_failed data), self1)))"

subsection \<open>createGraph\<close>

definition not_defined_collection :: "string \<Rightarrow> error" where
  "not_defined_collection colName =
     ValueError ([CHR 0x27] @ colName @ [CHR 0x27] @ '' is not a defined Collection'')"

definition not_defined_edge_collection :: "string \<Rightarrow> error" where
  "not_defined_edge_collection colName =
     ValueError ([CHR 0x27] @ colName @ [CHR 0x27] @ '' is not a defined Edge Collection'')"

text \<open>The inner function of lines 146 to 149; None when it returns without raising.\<close>

fun checkCollectionList :: "modules \<Rightarrow> string list \<Rightarrow> error option" where
  "checkCollectionList M [] = None"
| "checkCollectionList M (colName # lst) =
     (if \<not> isCollection M colName then Some (not_defined_collection colName)
      else checkCollectionList M lst)"

text \<open>The loop of lines 154 to 160, with the list \<open>ed\<close> built so far.\<close>

fun check_edgeDefinitions ::
  "modules \<Rightarrow> edgeDefinition list \<Rightarrow> json list \<Rightarrow> error + json list" where
  "check_edgeDefinitions M [] ed = Inr ed"
| "check_edgeDefinitions M (e # es) ed =
     (if \<not> isEdgeCollection M (edgesCollection e) then
        Inl (not_defined_edge_collection (edgesCollection e))
      else
        (case checkCollectionList M (fromCollections e) of
           Some err \<Rightarrow> Inl err
         | None \<Rightarrow>
             (case checkCollectionList M (toCollections e) of
                Some err \<Rightarrow> Inl err
              | None \<Rightarrow> check_edgeDefinitions M es (ed @ [toJson M e]))))"

text \<open>Lines 151 to 182 of createGraph: everything before the request.\<close>

definition createGraph_payload ::
  "modules \<Rightarrow> string \<Rightarrow> json \<Rightarrow> json \<Rightarrow> json \<Rightarrow> error + (graph_class \<times> json)" where
  "createGraph_payload M gname isSmart numberOfShards smartGraphAttribute =
     (case getGraphClass M gname of
        None \<Rightarrow> Inl (KeyError gname)
      | Some graphClass \<Rightarrow>
          (case check_edgeDefinitions M (edgeDefinitions graphClass) [] of
             Inl e \<Rightarrow> Inl e
           | Inr ed \<Rightarrow>
               (case checkCollectionList M (orphanedCollections graphClass) of
                  Some e \<Rightarrow> Inl e
                | None \<Rightarrow>
                    (let options =
                           (if truthy numberOfShards
                            then [(''numberOfShards'', numberOfShards)] else []) @
                           (if truthy smartGraphAttribute
                            then [(''smartGraphAttribute'', smartGraphAttribute)] else []);
                         payload =
                           [(''name'', JStr gname),
                            (''edgeDefinitions'', JArr ed),
                            (''orphanCollections'',
                               JArr (map JStr (orphanedCollections graphClass)))] @
                           (if truthy isSmart then [(''isSmart'', isSmart)] else []) @
                           (if options \<noteq> [] then [(''options'', JObj options)] else [])
                     in Inr (graphClass, JObj payload)))))"

definition createGraph ::
  "modules \<Rightarrow> database \<Rightarrow> string \<Rightarrow> bool \<Rightarrow> json \<Rightarrow> json \<Rightarrow> json \<Rightarrow>
   (error + graph_obj) \<times> database" where
  "createGraph M self gname createCollections isSmart numberOfShards smartGraphAttribute =
     (case createGraph_payload M gname isSmart numberOfShards smartGraphAttribute of
        Inl e \<Rightarrow> (Inl e, self)
      | Inr (graphClass, payload) \<Rightarrow>
          (case session_post self (getGraphsURL self) payload of (r, self1) \<Rightarrow>
             let data = r_json r in
             if status_code r = 201 \<or> status_code r = 202 then
               (case subscript data ''graph'' of
                  Inl e \<Rightarrow> (Inl e, self1)
                | Inr g \<Rightarrow>
                    (let obj = \<lparr>graph_class = graphClass, graph_data = g\<rparr>
                     in (Inr obj, self1\<lparr>graphs := AList.update gname obj (graphs self1)\<rparr>)))
             else (Inl (creation_failed data), self1)))"

subsection \<open>Membership and dropAllCollections\<close>

definition hasCollection :: "database \<Rightarrow> string \<Rightarrow> bool" where
  "hasCollection self n = (map_of (collections self) n \<noteq> None)"

definition hasGraph :: "database \<Rightarrow> string \<Rightarrow> bool" where
  "hasGraph self n = (map_of (graphs self) n \<noteq> None)"

text \<open>\<open>collection_name.startswith('_')\<close>\<close>

fun startswith_underscore :: "string \<Rightarrow> bool" where
  "startswith_underscore [] = False"
| "startswith_underscore (c # cs) = (c = CHR ''_'')"

text \<open>
  Modelled from the spec: \<open>Graph.delete\<close> and \<open>Collection.delete\<close> are not in this file
  ("collection/graph objects are responsible for their own delete-request semantics");
  a call is recorded in the trace with the key it was reached by, and returns.
\<close>

definition delete_graph :: "database \<Rightarrow> string \<Rightarrow> graph_obj \<Rightarrow> database" where
  "delete_graph self k g = self\<lparr>trace := trace self @ [DeleteGraph k g]\<rparr>"

definition delete_collection :: "database \<Rightarrow> string \<Rightarrow> collection_obj \<Rightarrow> database" where
  "delete_collection self k c = self\<lparr>trace := trace self @ [DeleteCollection k c]\<rparr>"

text \<open>The loop of lines 203 and 204 over the keys of \<open>self.graphs\<close>.\<close>

fun drop_graphs :: "database \<Rightarrow> string list \<Rightarrow> (error + unit) \<times> database" where
  "drop_graphs self [] = (Inr (), self)"
| "drop_graphs self (graph_name # rest) =
     (case map_of (graphs self) graph_name of
        None \<Rightarrow> (Inl (KeyError graph_name), self)
      | Some g \<Rightarrow> drop_graphs (delete_graph self graph_name g) rest)"

text \<open>The loop of lines 205 to 208 over the keys of \<open>self.collections\<close>.\<close>

fun drop_collections :: "modules \<Rightarrow> database \<Rightarrow> string list \<Rightarrow> (error + unit) \<times> database" where
  "drop_collections M self [] = (Inr (), self)"
| "drop_collections M self (collection_name # rest) =
     (if \<not> startswith_underscore collection_name then
        (case getitem M self collection_name of
           (Inl e, self') \<Rightarrow> (Inl e, self')
         | (Inr c, self') \<Rightarrow>
             drop_collections M (delete_collection self' collection_name c) rest)
      else drop_collections M self rest)"

definition dropAllCollections :: "modules \<Rightarrow> database \<Rightarrow> (error + unit) \<times> database" where
  "dropAllCollections M self =
     (case drop_graphs self (map fst (graphs self)) of
        (Inl e, self') \<Rightarrow> (Inl e, self')
      | (Inr _, self') \<Rightarrow> drop_collections M self' (map fst (collections self')))"

subsection \<open>Attribute lookup\<close>

text \<open>
  The methods that the body of class Database defines, by the names of their \<open>def\<close>
  lines, and the other attributes that every instance of a class has (Python 3.11 and
  later).
\<close>

definition Database_methods :: "string list" where
  "Database_methods =
     [''__init__'', ''getURL'', ''getCollectionsURL'', ''getExplainURL'',
      ''getGraphsURL'', ''getTransactionURL'', ''reloadCollections'', ''reloadGraphs'',
      ''reload'', ''createCollection'', ''fetchDocument'', ''createGraph'', ''hasCollection'',
      ''hasGraph'', ''dropAllCollections'', ''AQLQuery'', ''explainAQLQuery'',
      ''validateAQLQuery'', ''transaction'', ''__repr__'', ''__getitem__'']"

definition object_attributes :: "string list" where
  "object_attributes =
     [''__class__'', ''__delattr__'', ''__dict__'', ''__dir__'', ''__doc__'', ''__eq__'',
      ''__format__'', ''__ge__'', ''__getattribute__'', ''__getstate__'', ''__gt__'',
      ''__hash__'',
      ''__init_subclass__'', ''__le__'', ''__lt__'', ''__module__'', ''__ne__'', ''__new__'',
      ''__reduce__'', ''__reduce_ex__'', ''__setattr__'', ''__sizeof__'', ''__str__'',
      ''__subclasshook__'', ''__weakref__'']"

datatype attribute =
    A_name string
  | A_connection connection
  | A_collections "(string \<times> collection_obj) list"
  | A_graphs "(string \<times> graph_obj) list"
  | A_method string string
  | A_special string string

text \<open>
  What an attribute lookup gives: one of the four instance attributes with its value;
  \<open>A_method c k\<close>, the method \<open>k\<close> as the body of class \<open>c\<close> defines it; or
  \<open>A_special c k\<close>, the attribute \<open>k\<close> of \<open>object_attributes\<close> for an instance of class
  \<open>c\<close> (its \<open>__class__\<close>, its \<open>__doc__\<close>, its \<open>__dict__\<close>, ...), whose value the model
  does not follow.
\<close>

text \<open>\<open>self.k\<close> on a Database: the instance's attributes, then the class's.\<close>

definition Database_getattribute :: "database \<Rightarrow> string \<Rightarrow> error + attribute" where
  "Database_getattribute self k =
     (if k = ''name'' then Inr (A_name (name self))
      else if k = ''connection'' then Inr (A_connection (connection self))
      else if k = ''collections'' then Inr (A_collections (collections self))
      else if k = ''graphs'' then Inr (A_graphs (graphs self))
      else if k \<in> set Database_methods then Inr (A_method ''Database'' k)
      else if k \<in> set object_attributes then Inr (A_special ''Database'' k)
      else Inl (AttributeError k))"

definition url_methods :: "(string \<times> (database \<Rightarrow> string)) list" where
  "url_methods =
     [(''getURL'', getURL), (''getCollectionsURL'', getCollectionsURL),
      (''getExplainURL'', getExplainURL), (''getGraphsURL'', getGraphsURL),
      (''getTransactionURL'', getTransactionURL)]"

text \<open>
  \<open>self.m()\<close> for a method name \<open>m\<close>: the attribute is looked up, then called. Only the
  URL methods are followed; an attribute that is no method is not callable.
\<close>

definition call_url_method :: "database \<Rightarrow> string \<Rightarrow> error + string" where
  "call_url_method self m =
     (case Database_getattribute self m of
        Inl e \<Rightarrow> Inl e
      | Inr (A_method c f) \<Rightarrow>
          (case map_of url_methods f of Some u \<Rightarrow> Inr (u self) | None \<Rightarrow> Inl NotModelled)
      | Inr _ \<Rightarrow> Inl TypeError)"

subsection \<open>Queries and transactions\<close>

definition explainAQLQuery :: "database \<Rightarrow> string \<Rightarrow> json \<Rightarrow> json \<Rightarrow> json \<times> database" where
  "explainAQLQuery self query bindVars allPlans =
     (let payload = JObj [(''query'', JStr query), (''bindVars'', bindVars),
                          (''allPlans'', allPlans)]
      in case session_post self (getExplainURL self) payload of
           (request, self1) \<Rightarrow> (r_json request, self1))"

definition query_failed :: "string \<Rightarrow> json \<Rightarrow> error" where
  "query_failed query data =
     (case subscript data ''errorMessage'' of
        Inl e \<Rightarrow> e
      | Inr msg \<Rightarrow> AQLQueryError msg query data)"

text \<open>\<open>bindVars\<close> and \<open>options\<close> are None (\<open>JNull\<close>) by default.\<close>

definition cursor_payload :: "string \<Rightarrow> json \<Rightarrow> json \<Rightarrow> json" where
  "cursor_payload query bindVars options =
     JObj [(''query'', JStr query),
           (''bindVars'', if bindVars = JNull then JObj [] else bindVars),
           (''options'', if options = JNull then JObj [] else options)]"

text \<open>Lines 231 to 236, once the URL of the request is known.\<close>

definition validate_with ::
  "database \<Rightarrow> string \<Rightarrow> string \<Rightarrow> json \<Rightarrow> json \<Rightarrow> (error + json) \<times> database" where
  "validate_with self url query bindVars options =
     (case session_post self url (cursor_payload query bindVars options) of
        (r, self1) \<Rightarrow>
           let data = r_json r in
           if status_code r = 201 then
             (case subscript data ''error'' of
                Inl e \<Rightarrow> (Inl e, self1)
              | Inr err \<Rightarrow>
                  if \<not> truthy err then (Inr data, self1)
                  else (Inl (query_failed query data), self1))
           else (Inl (query_failed query data), self1))"

text \<open>
  Line 231 calls \<open>self.getCursorsURL()\<close> for the first argument of \<open>post\<close>, before the
  request is sent.
\<close>

definition validateAQLQuery ::
  "database \<Rightarrow> string \<Rightarrow> json \<Rightarrow> json \<Rightarrow> (error + json) \<times> database" where
  "validateAQLQuery self query bindVars options =
     (case call_url_method self ''getCursorsURL'' of
        Inl e \<Rightarrow> (Inl e, self)
      | Inr url \<Rightarrow> validate_with self url query bindVars options)"

definition transaction_failed :: "json \<Rightarrow> json \<Rightarrow> error" where
  "transaction_failed action data =
     (case subscript data ''errorMessage'' of
        Inl e \<Rightarrow> e
      | Inr msg \<Rightarrow> TransactionError msg action data)"

text \<open>Lines 251 to 260, once the URL of the request is known.\<close>

definition transaction_with ::
  "database \<Rightarrow> string \<Rightarrow> json \<Rightarrow> json \<Rightarrow> (error + json) \<times> database" where
  "transaction_with self url payload action =
     (case session_post self url payload of (r, self1) \<Rightarrow>
        let self2 = self1\<lparr>trace := trace self1 @ [ReportItem]\<rparr>;
            data = r_json r
        in if status_code r = 200 \<or> status_code r = 201 \<or> status_code r = 202 then
             (case dict_get data ''error'' of
                Inl e \<Rightarrow> (Inl e, self2)
              | Inr err \<Rightarrow>
                  if \<not> truthy err then (Inr data, self2)
                  else (Inl (transaction_failed action data), self2))
           else (Inl (transaction_failed action data), self2))"

text \<open>
  Line 251 calls \<open>self.geTransactionURL()\<close>, by that name, for the first argument of
  \<open>post\<close>: after \<open>reportStart\<close> has run and before the request is sent.
\<close>

definition transaction ::
  "database \<Rightarrow> json \<Rightarrow> json \<Rightarrow> json \<Rightarrow> json \<Rightarrow> json \<Rightarrow> (error + json) \<times> database" where
  "transaction self cols action waitForSync lockTimeout params =
     (let payload =
            [(''collections'', cols), (''action'', action), (''waitForSync'', waitForSync)] @
            (if lockTimeout \<noteq> JNull then [(''lockTimeout'', lockTimeout)] else []) @
            (if params \<noteq> JNull then [(''params'', params)] else []);
          self1 = self\<lparr>trace := trace self @ [ReportStart action]\<rparr>
      in case call_url_method self1 ''geTransactionURL'' of
           Inl e \<Rightarrow> (Inl e, self1)
         | Inr url \<Rightarrow> transaction_with self1 url (JObj payload) action)"

section \<open>The DBHandle\<close>









section \<open>Notions used in the statements\<close>

text \<open>
  The collections that a graph class refers to, in the order in which createGraph checks
  them: for each edge definition its edge collection (marked True), then its "from" and
  its "to" collections, and at the end the orphan collections. A reference offends when
  its check fails: \<open>isEdgeCollection\<close> for an edge collection, \<open>isCollection\<close> for any
  other. \<open>validation_error\<close> is the ValueError that names a reference, with the wording
  for its role.
\<close>

definition references :: "graph_class \<Rightarrow> (bool \<times> string) list" where
  "references graphClass =
     concat (map (\<lambda>e. (True, edgesCollection e) #
                       map (Pair False) (fromCollections e @ toCollections e))
                 (edgeDefinitions graphClass)) @
     map (Pair False) (orphanedCollections graphClass)"

definition offending :: "modules \<Rightarrow> bool \<times> string \<Rightarrow> bool" where
  "offending M c = (if fst c then \<not> isEdgeCollection M (snd c) else \<not> isCollection M (snd c))"

definition validation_error :: "bool \<times> string \<Rightarrow> error" where
  "validation_error c =
     ValueError ([CHR 0x27] @ snd c @ [CHR 0x27] @
                 (if fst c then '' is not a defined Edge Collection''
                  else '' is not a defined Collection''))"

text \<open>
  The merge of the specification's createCollection: the class's declared defaults, with
  each property of the caller written over them.
\<close>

definition merged_properties :: "dict \<Rightarrow> dict \<Rightarrow> dict" where
  "merged_properties defaults colProperties =
     fold (\<lambda>kv. AList.update (fst kv) (snd kv)) colProperties defaults"

text \<open>
  What reloadCollections reads from one element of the listing: its name when it is a
  string, the truth value of \<open>isSystem\<close>, whether \<open>type\<close> equals a given code, and the
  class registered under its name. \<open>loaded_class\<close> is the class of the object that the
  loop registers for the element, \<open>unknown_type\<close> says that the element reaches the last
  branch of the loop (line 69), and \<open>warning_of\<close> is what that branch prints.
  \<open>well_formed\<close> elements have the shape of the wire protocol: a string \<open>name\<close>, an
  \<open>isSystem\<close> field and an integer \<open>type\<close>, whatever its value.
\<close>

definition item_name :: "json \<Rightarrow> string option" where
  "item_name colData =
     (case subscript colData ''name'' of Inr (JStr n) \<Rightarrow> Some n | _ \<Rightarrow> None)"

definition is_system :: "json \<Rightarrow> bool" where
  "is_system colData =
     (case subscript colData ''isSystem'' of Inr v \<Rightarrow> truthy v | Inl _ \<Rightarrow> False)"

definition has_type :: "json \<Rightarrow> int \<Rightarrow> bool" where
  "has_type colData c =
     (case subscript colData ''type'' of Inr t \<Rightarrow> equals_int t c | Inl _ \<Rightarrow> False)"

definition registered_class :: "modules \<Rightarrow> json \<Rightarrow> col_class option" where
  "registered_class M colData =
     (case item_name colData of Some n \<Rightarrow> getCollectionClass M n | None \<Rightarrow> None)"

definition loaded_class :: "modules \<Rightarrow> json \<Rightarrow> col_class" where
  "loaded_class M colData =
     (if is_system colData then SystemCollection M
      else case registered_class M colData of
             Some colClass \<Rightarrow> colClass
           | None \<Rightarrow>
               if has_type colData (COLLECTION_EDGE_TYPE M) then Edges M else Collection M)"

definition unknown_type :: "modules \<Rightarrow> json \<Rightarrow> bool" where
  "unknown_type M colData =
     (\<not> is_system colData \<and> registered_class M colData = None \<and>
      \<not> has_type colData (COLLECTION_EDGE_TYPE M) \<and>
      \<not> has_type colData (COLLECTION_DOCUMENT_TYPE M))"

definition warning_of :: "json \<Rightarrow> event" where
  "warning_of colData =
     Print (unknown_type_warning
              (case subscript colData ''type'' of
                 Inr t \<Rightarrow> (case format_d t of Inr d \<Rightarrow> d | Inl _ \<Rightarrow> [])
               | Inl _ \<Rightarrow> []))"

definition well_formed :: "json \<Rightarrow> bool" where
  "well_formed colData =
     (item_name colData \<noteq> None \<and>
      (case subscript colData ''isSystem'' of Inr v \<Rightarrow> True | Inl _ \<Rightarrow> False) \<and>
      (case subscript colData ''type'' of Inr (JInt t) \<Rightarrow> True | _ \<Rightarrow> False))"

text \<open>
  The three kinds of collection of the specification's reload: the kind that the
  \<open>isSystem\<close> and \<open>type\<close> fields of a listing element give, and the kind of a class.
\<close>

datatype kind = SystemKind | EdgeKind | DocumentKind

definition kind_by_fields :: "modules \<Rightarrow> json \<Rightarrow> kind" where
  "kind_by_fields M colData =
     (if is_system colData then SystemKind
      else if has_type colData (COLLECTION_EDGE_TYPE M) then EdgeKind
      else DocumentKind)"

definition kind_of_class :: "modules \<Rightarrow> col_class \<Rightarrow> kind" where
  "kind_of_class M colClass =
     (if colClass = SystemCollection M then SystemKind
      else if issubclass_Edges colClass then EdgeKind
      else DocumentKind)"



section \<open>Example values\<close>

text \<open>
  A small installation for the concrete evaluations below: two user classes, \<open>Users\<close>
  (documents, with a default property) and \<open>Friend\<close> (edges), two graph classes, and
  the wire codes as the specification gives them (2 for edges, 3 for documents).
\<close>

definition users_class :: col_class where
  "users_class =
     \<lparr>cls_name = ''Users'', issubclass_Edges = False, class_is_Edges = False,
      cls_properties = Some [(''waitForSync'', JBool True)]\<rparr>"

definition friend_class :: col_class where
  "friend_class =
     \<lparr>cls_name = ''Friend'', issubclass_Edges = True, class_is_Edges = False,
      cls_properties = None\<rparr>"

definition generic_collection :: col_class where
  "generic_collection =
     \<lparr>cls_name = ''Collection'', issubclass_Edges = False, class_is_Edges = False,
      cls_properties = None\<rparr>"

definition generic_edges :: col_class where
  "generic_edges =
     \<lparr>cls_name = ''Edges'', issubclass_Edges = True, class_is_Edges = False,
      cls_properties = None\<rparr>"

definition system_collection :: col_class where
  "system_collection =
     \<lparr>cls_name = ''SystemCollection'', issubclass_Edges = False, class_is_Edges = False,
      cls_properties = None\<rparr>"

definition example_classes :: "(string \<times> col_class) list" where
  "example_classes =
     [(''Collection'', generic_collection), (''Edges'', generic_edges),
      (''Users'', users_class), (''Friend'', friend_class)]"

definition social_graph :: graph_class where
  "social_graph =
     \<lparr>gcls_name = ''Social'',
      edgeDefinitions =
        [\<lparr>edgesCollection = ''Friend'', fromCollections = [''Users''],
          toCollections = [''Users'']\<rparr>],
      orphanedCollections = []\<rparr>"

definition haunted_graph :: graph_class where
  "haunted_graph =
     \<lparr>gcls_name = ''Haunted'',
      edgeDefinitions =
        [\<lparr>edgesCollection = ''Friend'', fromCollections = [''Users''],
          toCollections = [''Users'', ''Ghost'']\<rparr>],
      orphanedCollections = [''Phantom'']\<rparr>"

definition misused_graph :: graph_class where
  "misused_graph =
     \<lparr>gcls_name = ''Misused'',
      edgeDefinitions =
        [\<lparr>edgesCollection = ''Users'', fromCollections = [''Ghost''],
          toCollections = [''Users'']\<rparr>],
      orphanedCollections = []\<rparr>"

definition generic_graph :: graph_class where
  "generic_graph = \<lparr>gcls_name = ''Graph'', edgeDefinitions = [], orphanedCollections = []\<rparr>"

definition example_modules :: modules where
  "example_modules =
     \<lparr>COLLECTION_EDGE_TYPE = 2,
      COLLECTION_DOCUMENT_TYPE = 3,
      getCollectionClass = map_of example_classes,
      SystemCollection = system_collection,
      Edges = generic_edges,
      Collection = generic_collection,
      isCollection = (\<lambda>n. map_of example_classes n \<noteq> None),
      isEdgeCollection =
        (\<lambda>n. case map_of example_classes n of None \<Rightarrow> False | Some c \<Rightarrow> issubclass_Edges c),
      obj_name =
        (\<lambda>c. case subscript (col_data c) ''name'' of
                Inr (JStr n) \<Rightarrow> n | _ \<Rightarrow> cls_name (col_class c)),
      getGraphClass = map_of [(''Social'', social_graph), (''Haunted'', haunted_graph),
                              (''Misused'', misused_graph)],
      Graph = generic_graph,
      toJson =
        (\<lambda>e. JObj [(''collection'', JStr (edgesCollection e)),
                    (''from'', JArr (map JStr (fromCollections e))),
                    (''to'', JArr (map JStr (toCollections e)))])\<rparr>"

definition boom :: json where
  "boom = JObj [(''error'', JBool True), (''errorMessage'', JStr ''boom'')]"

definition failing_connection :: connection where
  "failing_connection =
     \<lparr>getEnpointURL = ''http://db:8529'',
      session = (\<lambda>tr req. \<lparr>status_code = 500, r_json = boom\<rparr>)\<rparr>"

definition notes_obj :: collection_obj where
  "notes_obj =
     \<lparr>col_class = generic_collection,
      col_data = JObj [(''name'', JStr ''notes''), (''isSystem'', JBool False),
                       (''type'', JInt 3)]\<rparr>"

definition social_obj :: graph_obj where
  "social_obj = \<lparr>graph_class = social_graph, graph_data = JObj [(''_key'', JStr ''Social'')]\<rparr>"

definition failing_db :: database where
  "failing_db =
     \<lparr>name = ''test'', connection = failing_connection,
      collections = [(''notes'', notes_obj)], graphs = [(''Social'', social_obj)],
      trace = []\<rparr>"

definition listing_items :: "json list" where
  "listing_items =
     [JObj [(''name'', JStr ''_graphs''), (''isSystem'', JBool True), (''type'', JInt 3)],
      JObj [(''name'', JStr ''Users''), (''isSystem'', JBool False), (''type'', JInt 3)],
      JObj [(''name'', JStr ''knows''), (''isSystem'', JBool False), (''type'', JInt 2)],
      JObj [(''name'', JStr ''notes''), (''isSystem'', JBool False), (''type'', JInt 3)],
      JObj [(''name'', JStr ''odd''), (''isSystem'', JBool False), (''type'', JInt 7)]]"

definition listing_body :: json where
  "listing_body = JObj [(''error'', JBool False), (''result'', JArr listing_items)]"

definition graphs_body :: json where
  "graphs_body =
     JObj [(''error'', JBool False),
           (''graphs'', JArr [JObj [(''_key'', JStr ''Social'')],
                              JObj [(''_key'', JStr ''other'')]])]"

definition valid_body :: json where
  "valid_body = JObj [(''error'', JBool False), (''parsed'', JBool True)]"

definition invalid_body :: json where
  "invalid_body = JObj [(''error'', JBool True), (''errorMessage'', JStr ''syntax error'')]"

definition example_connection :: connection where
  "example_connection =
     \<lparr>getEnpointURL = ''http://db:8529'',
      session = (\<lambda>tr req.
        case req of
          GET url \<Rightarrow>
            if url = ''http://db:8529/_db/test/_api/collection''
              then \<lparr>status_code = 200, r_json = listing_body\<rparr>
            else if url = ''http://db:8529/_db/test/_api/gharial''
              then \<lparr>status_code = 200, r_json = graphs_body\<rparr>
            else \<lparr>status_code = 404, r_json = boom\<rparr>
        | POST url body \<Rightarrow>
            if url = ''http://db:8529/_db/test/_api/cursor'' then
              (if subscript body ''query'' = Inr (JStr ''RETURN 1'')
                 then \<lparr>status_code = 201, r_json = valid_body\<rparr>
               else \<lparr>status_code = 400, r_json = invalid_body\<rparr>)
            else \<lparr>status_code = 500, r_json = boom\<rparr>)\<rparr>"

definition users_obj :: collection_obj where
  "users_obj =
     \<lparr>col_class = users_class,
      col_data = JObj [(''name'', JStr ''Users''), (''isSystem'', JBool False),
                       (''type'', JInt 3)]\<rparr>"

definition system_obj :: collection_obj where
  "system_obj =
     \<lparr>col_class = system_collection,
      col_data = JObj [(''name'', JStr ''_graphs''), (''isSystem'', JBool True),
                       (''type'', JInt 3)]\<rparr>"

definition example_db :: database where
  "example_db =
     \<lparr>name = ''test'', connection = example_connection,
      collections = [(''_graphs'', system_obj), (''Users'', users_obj), (''notes'', notes_obj)],
      graphs = [(''Social'', social_obj)],
      trace = []\<rparr>"

definition fresh_db :: database where
  "fresh_db =
     \<lparr>name = ''test'', connection = example_connection, collections = [], graphs = [],
      trace = []\<rparr>"

text \<open>
  The state of \<open>fresh_db\<close> after one reload and after two, a server whose listing names a
  document collection \<open>Friend\<close>, and the state in which a reload against the failing
  server leaves a new Database.
\<close>

definition knows_obj :: collection_obj where
  "knows_obj =
     \<lparr>col_class = generic_edges,
      col_data = JObj [(''name'', JStr ''knows''), (''isSystem'', JBool False),
                       (''type'', JInt 2)]\<rparr>"

definition odd_obj :: collection_obj where
  "odd_obj =
     \<lparr>col_class = generic_collection,
      col_data = JObj [(''name'', JStr ''odd''), (''isSystem'', JBool False),
                       (''type'', JInt 7)]\<rparr>"

definition other_obj :: graph_obj where
  "other_obj = \<lparr>graph_class = generic_graph, graph_data = JObj [(''_key'', JStr ''other'')]\<rparr>"

definition reloaded_db :: database where
  "reloaded_db =
     \<lparr>name = ''test'', connection = example_connection,
      collections = [(''_graphs'', system_obj), (''Users'', users_obj), (''knows'', knows_obj),
                     (''notes'', notes_obj), (''odd'', odd_obj)],
      graphs = [(''Social'', social_obj), (''other'', other_obj)],
      trace = [Request (GET ''http://db:8529/_db/test/_api/collection''),
               Print (unknown_type_warning ''7''),
               Request (GET ''http://db:8529/_db/test/_api/gharial'')]\<rparr>"


definition friend_item :: json where
  "friend_item =
     JObj [(''name'', JStr ''Friend''), (''isSystem'', JBool False), (''type'', JInt 3)]"

definition mismatch_connection :: connection where
  "mismatch_connection =
     \<lparr>getEnpointURL = ''http://db:8529'',
      session = (\<lambda>tr req.
        case req of
          GET url \<Rightarrow>
            if url = ''http://db:8529/_db/test/_api/collection''
              then \<lparr>status_code = 200,
                    r_json = JObj [(''error'', JBool False), (''result'', JArr [friend_item])]\<rparr>
            else \<lparr>status_code = 200,
                  r_json = JObj [(''error'', JBool False), (''graphs'', JArr [])]\<rparr>
        | POST url body \<Rightarrow> \<lparr>status_code = 500, r_json = boom\<rparr>)\<rparr>"

definition mismatch_db :: database where
  "mismatch_db =
     \<lparr>name = ''test'', connection = mismatch_connection, collections = [], graphs = [],
      trace = []\<rparr>"

text \<open>
  A server that answers the collection listing and fails on everything else, a Database
  that holds an older registry, and its state when reloadCollections has returned.
\<close>

definition half_failing_connection :: connection where
  "half_failing_connection =
     \<lparr>getEnpointURL = ''http://db:8529'',
      session = (\<lambda>tr req.
        case req of
          GET url \<Rightarrow>
            if url = ''http://db:8529/_db/test/_api/collection''
              then \<lparr>status_code = 200, r_json = listing_body\<rparr>
            else \<lparr>status_code = 500, r_json = boom\<rparr>
        | POST url body \<Rightarrow> \<lparr>status_code = 500, r_json = boom\<rparr>)\<rparr>"

definition unlisted_connection :: connection where
  "unlisted_connection =
     \<lparr>getEnpointURL = ''http://db:8529'',
      session = (\<lambda>tr req. \<lparr>status_code = 200, r_json = JObj [(''error'', JBool False)]\<rparr>)\<rparr>"

definition unlisted_db :: database where
  "unlisted_db =
     \<lparr>name = ''test'', connection = unlisted_connection,
      collections = [(''notes'', notes_obj)], graphs = [(''Social'', social_obj)],
      trace = []\<rparr>"

definition stale_db :: database where
  "stale_db =
     \<lparr>name = ''test'', connection = half_failing_connection,
      collections = [(''notes'', notes_obj)], graphs = [(''Social'', social_obj)],
      trace = []\<rparr>"

definition half_reloaded_db :: database where
  "half_reloaded_db =
     \<lparr>name = ''test'', connection = half_failing_connection,
      collections = [(''_graphs'', system_obj), (''Users'', users_obj), (''knows'', knows_obj),
                     (''notes'', notes_obj), (''odd'', odd_obj)],
      graphs = [(''Social'', social_obj)],
      trace = [Request (GET ''http://db:8529/_db/test/_api/collection''),
               Print (unknown_type_warning ''7'')]\<rparr>"


section \<open>Shared lemmas\<close>

lemmas example_defs = example_modules_def example_classes_def users_class_def friend_class_def
  generic_collection_def generic_edges_def system_collection_def social_graph_def
  haunted_graph_def misused_graph_def generic_graph_def

lemma ex_payload: "createCollection_payload example_modules failing_db ''Users'' [] =
   Inr (users_class, [(''waitForSync'', JBool True), (''name'', JStr ''Users''), (''type'', JInt 3)])"
  by (simp add: createCollection_payload_def example_defs
        failing_db_def initial_properties_def named_properties_def check_unused_def
        wire_type_def)

lemma ex_gpayload: "createGraph_payload example_modules ''Social'' (JBool False) JNull JNull =
   Inr (social_graph, JObj [(''name'', JStr ''Social''),
     (''edgeDefinitions'', JArr [JObj [(''collection'', JStr ''Friend''),
         (''from'', JArr [JStr ''Users'']), (''to'', JArr [JStr ''Users''])]]),
     (''orphanCollections'', JArr [])])"
  by (simp add: createGraph_payload_def example_defs)

lemmas url_defs = getURL_def getCollectionsURL_def getExplainURL_def
  getGraphsURL_def getTransactionURL_def

lemma checkCollectionList_find:
  "checkCollectionList M lst =
     map_option validation_error (find (offending M) (map (Pair False) lst))"
  by (induction lst)
    (simp_all add: offending_def validation_error_def not_defined_collection_def)

lemma find_append:
  "find P (xs @ ys) = (case find P xs of Some x \<Rightarrow> Some x | None \<Rightarrow> find P ys)"
  by (induction xs) simp_all

lemma check_edgeDefinitions_find:
  "check_edgeDefinitions M es ed =
     (case find (offending M)
             (concat (map (\<lambda>e. (True, edgesCollection e) #
                       map (Pair False) (fromCollections e @ toCollections e)) es)) of
        Some c \<Rightarrow> Inl (validation_error c)
      | None \<Rightarrow> Inr (ed @ map (toJson M) es))"
proof (induction es arbitrary: ed)
  case Nil
  then show ?case by simp
next
  case (Cons e es)
  show ?case
  proof (cases "isEdgeCollection M (edgesCollection e)")
    case False
    then show ?thesis
      by (simp add: offending_def validation_error_def not_defined_edge_collection_def)
  next
    case True
    then have edge_ok: "\<not> offending M (True, edgesCollection e)"
      by (simp add: offending_def)
    show ?thesis
      using Cons.IH [of "ed @ [toJson M e]"] edge_ok True
      by (simp add: checkCollectionList_find find_append split: option.splits)
  qed
qed

lemma createGraph_payload_find:
  assumes "getGraphClass M gname = Some graphClass"
    and "find (offending M) (references graphClass) = Some c"
  shows "createGraph_payload M gname isSmart numberOfShards smartGraphAttribute =
           Inl (validation_error c)"
  using assms
  by (auto simp add: createGraph_payload_def references_def check_edgeDefinitions_find
      checkCollectionList_find find_append split: option.splits)

lemma load_collection_ok:
  assumes "load_collection M self colData = (Inr (), self')"
  shows "\<exists>n. item_name colData = Some n \<and>
           self' = set_collection
                     (self\<lparr>trace := trace self @
                              (if unknown_type M colData then [warning_of colData] else [])\<rparr>)
                     n \<lparr>col_class = loaded_class M colData, col_data = colData\<rparr>"
proof -
  from assms obtain n where n: "subscript colData ''name'' = Inr (JStr n)"
    by (auto simp add: load_collection_def split: sum.splits json.splits)
  from assms n obtain v where v: "subscript colData ''isSystem'' = Inr v"
    by (auto simp add: load_collection_def split: sum.splits)
  show ?thesis
  proof (cases "truthy v")
    case True
    with assms n v show ?thesis
      by (simp add: load_collection_def item_name_def loaded_class_def is_system_def
          unknown_type_def)
  next
    case False
    note sys = this
    show ?thesis
    proof (cases "getCollectionClass M n")
      case (Some colClass)
      with assms n v sys show ?thesis
        by (simp add: load_collection_def item_name_def loaded_class_def is_system_def
            unknown_type_def registered_class_def)
    next
      case None
      with assms n v sys obtain t where t: "subscript colData ''type'' = Inr t"
        by (auto simp add: load_collection_def split: sum.splits)
      with assms n v sys None show ?thesis
        by (auto simp add: load_collection_def item_name_def loaded_class_def is_system_def
            unknown_type_def registered_class_def has_type_def warning_of_def
            split: if_splits sum.splits)
    qed
  qed
qed

lemma load_collection_err:
  "load_collection M self colData = (Inl e, self') \<Longrightarrow> self' = self"
  by (auto simp add: load_collection_def split: sum.splits json.splits option.splits if_splits)

lemma load_collection_well_formed:
  assumes "well_formed colData"
  shows "fst (load_collection M self colData) = Inr ()"
proof -
  from assms obtain n v t where "subscript colData ''name'' = Inr (JStr n)"
    "subscript colData ''isSystem'' = Inr v" "subscript colData ''type'' = Inr (JInt t)"
    by (auto simp add: well_formed_def item_name_def split: sum.splits json.splits)
  then show ?thesis
    by (simp add: load_collection_def split: option.splits)
qed

lemma load_collections_well_formed:
  "\<forall>i \<in> set items. well_formed i \<Longrightarrow> fst (load_collections M self items) = Inr ()"
proof (induction items arbitrary: self)
  case Nil
  then show ?case by simp
next
  case (Cons i items)
  then have "fst (load_collection M self i) = Inr ()"
    by (simp add: load_collection_well_formed)
  then obtain s1 where "load_collection M self i = (Inr (), s1)"
    by (cases "load_collection M self i") auto
  with Cons show ?case by simp
qed

lemma load_collections_ok:
  "load_collections M self items = (Inr (), self') \<Longrightarrow>
   name self' = name self \<and> connection self' = connection self \<and>
   graphs self' = graphs self \<and>
   trace self' = trace self @ map warning_of (filter (unknown_type M) items) \<and>
   (\<forall>i \<in> set items. item_name i \<noteq> None) \<and>
   fst ` set (collections self') =
     fst ` set (collections self) \<union> {n. \<exists>i \<in> set items. item_name i = Some n} \<and>
   (\<forall>n c. map_of (collections self') n = Some c \<longrightarrow>
      map_of (collections self) n = Some c \<or>
      (\<exists>i \<in> set items. item_name i = Some n \<and>
                        c = \<lparr>col_class = loaded_class M i, col_data = i\<rparr>))"
proof (induction items arbitrary: self)
  case Nil
  then show ?case by simp
next
  case (Cons i items)
  from Cons.prems obtain s1 where s1: "load_collection M self i = (Inr (), s1)"
    and rest: "load_collections M s1 items = (Inr (), self')"
    by (auto split: prod.splits sum.splits)
  from load_collection_ok [OF s1] obtain n where n: "item_name i = Some n"
    and s1_eq: "s1 = set_collection
                     (self\<lparr>trace := trace self @
                              (if unknown_type M i then [warning_of i] else [])\<rparr>)
                     n \<lparr>col_class = loaded_class M i, col_data = i\<rparr>"
    by blast
  note IH = Cons.IH [OF rest]
  have keys: "fst ` set (collections s1) = insert n (fst ` set (collections self))"
    by (simp add: s1_eq set_collection_def dom_update)
  have look: "map_of (collections s1) = (map_of (collections self))
                (n \<mapsto> \<lparr>col_class = loaded_class M i, col_data = i\<rparr>)"
    by (simp add: s1_eq set_collection_def update_conv')
  have basics: "name self' = name self \<and> connection self' = connection self \<and>
      graphs self' = graphs self \<and>
      trace self' = trace self @ map warning_of (filter (unknown_type M) (i # items))"
    using IH by (simp add: s1_eq set_collection_def)
  have names: "\<forall>j \<in> set (i # items). item_name j \<noteq> None"
    using IH n by simp
  have dom: "fst ` set (collections self') =
     fst ` set (collections self) \<union> {m. \<exists>j \<in> set (i # items). item_name j = Some m}"
    using IH keys n by auto
  have entries: "\<forall>m c. map_of (collections self') m = Some c \<longrightarrow>
      map_of (collections self) m = Some c \<or>
      (\<exists>j \<in> set (i # items). item_name j = Some m \<and>
                        c = \<lparr>col_class = loaded_class M j, col_data = j\<rparr>)"
  proof (intro allI impI)
    fix m c
    assume "map_of (collections self') m = Some c"
    with IH have "map_of (collections s1) m = Some c \<or>
      (\<exists>j \<in> set items. item_name j = Some m \<and>
                        c = \<lparr>col_class = loaded_class M j, col_data = j\<rparr>)"
      by blast
    then show "map_of (collections self) m = Some c \<or>
      (\<exists>j \<in> set (i # items). item_name j = Some m \<and>
                        c = \<lparr>col_class = loaded_class M j, col_data = j\<rparr>)"
      using look n by (auto split: if_splits)
  qed
  show ?case
    using basics names dom entries by blast
qed

lemma load_collections_any:
  "name (snd (load_collections M self items)) = name self \<and>
   connection (snd (load_collections M self items)) = connection self \<and>
   graphs (snd (load_collections M self items)) = graphs self \<and>
   (\<exists>ws. trace (snd (load_collections M self items)) = trace self @ map warning_of ws)"
proof (induction items arbitrary: self)
  case Nil
  show ?case by (simp; rule exI [of _ "[]"]; simp)
next
  case (Cons i items)
  show ?case
  proof (cases "load_collection M self i")
    case (Pair r s1)
    show ?thesis
    proof (cases r)
      case (Inl e)
      with Pair have "s1 = self" by (simp add: load_collection_err)
      with Pair Inl show ?thesis
        by (simp; rule exI [of _ "[]"]; simp)
    next
      case (Inr u)
      with Pair have ok: "load_collection M self i = (Inr (), s1)" by simp
      from load_collection_ok [OF ok] obtain n where
        s1_eq: "s1 = set_collection
                     (self\<lparr>trace := trace self @
                              (if unknown_type M i then [warning_of i] else [])\<rparr>)
                     n \<lparr>col_class = loaded_class M i, col_data = i\<rparr>"
        by blast
      from Cons.IH [of s1] obtain ws where
        ws: "trace (snd (load_collections M s1 items)) = trace s1 @ map warning_of ws"
        and others: "name (snd (load_collections M s1 items)) = name s1"
          "connection (snd (load_collections M s1 items)) = connection s1"
          "graphs (snd (load_collections M s1 items)) = graphs s1"
        by blast
      have snd_eq: "snd (load_collections M self (i # items)) =
                    snd (load_collections M s1 items)"
        using ok by simp
      have s1_same: "name s1 = name self" "connection s1 = connection self"
        "graphs s1 = graphs self"
        by (simp_all add: s1_eq set_collection_def)
      have "trace (snd (load_collections M s1 items)) =
              trace self @ map warning_of ((if unknown_type M i then [i] else []) @ ws)"
        using ws by (simp add: s1_eq set_collection_def)
      then have "\<exists>ws'. trace (snd (load_collections M s1 items)) =
                       trace self @ map warning_of ws'"
        by blast
      then show ?thesis
        unfolding snd_eq using others s1_same by simp
    qed
  qed
qed

lemma load_graph_any:
  "name (snd (load_graph M self g)) = name self \<and>
   connection (snd (load_graph M self g)) = connection self \<and>
   collections (snd (load_graph M self g)) = collections self \<and>
   trace (snd (load_graph M self g)) = trace self"
  by (simp add: load_graph_def split: sum.splits json.splits option.splits)

lemma load_graphs_any:
  "name (snd (load_graphs M self gs)) = name self \<and>
   connection (snd (load_graphs M self gs)) = connection self \<and>
   collections (snd (load_graphs M self gs)) = collections self \<and>
   trace (snd (load_graphs M self gs)) = trace self"
proof (induction gs arbitrary: self)
  case Nil
  show ?case by simp
next
  case (Cons g gs)
  show ?case
  proof (cases "load_graph M self g")
    case (Pair r s1)
    with load_graph_any [of M self g] have s1: "name s1 = name self"
      "connection s1 = connection self" "collections s1 = collections self"
      "trace s1 = trace self"
      by simp_all
    show ?thesis
      using Pair s1 Cons.IH [of s1] by (cases r) simp_all
  qed
qed

lemma reloadGraphs_any:
  "name (snd (reloadGraphs M self)) = name self \<and>
   connection (snd (reloadGraphs M self)) = connection self \<and>
   collections (snd (reloadGraphs M self)) = collections self \<and>
   trace (snd (reloadGraphs M self)) = trace self @ [Request (GET (getGraphsURL self))]"
  by (simp add: reloadGraphs_def session_get_def Let_def load_graphs_any
      split: sum.splits)

lemma reloadCollections_any:
  "name (snd (reloadCollections M self)) = name self \<and>
   connection (snd (reloadCollections M self)) = connection self \<and>
   graphs (snd (reloadCollections M self)) = graphs self \<and>
   (\<exists>ws. trace (snd (reloadCollections M self)) =
          trace self @ Request (GET (getCollectionsURL self)) # map warning_of ws)"
proof -
  let ?s0 = "self\<lparr>trace := trace self @ [Request (GET (getCollectionsURL self))],
                  collections := []\<rparr>"
  have loop: "\<exists>ws. trace (snd (load_collections M ?s0 items)) =
          trace self @ Request (GET (getCollectionsURL self)) # map warning_of ws" for items
    using load_collections_any [of M ?s0 items] by simp
  have nil: "\<exists>ws. trace self @ [Request (GET (getCollectionsURL self))] =
          trace self @ Request (GET (getCollectionsURL self)) # map warning_of ws"
    by (rule exI [of _ "[]"]) simp
  show ?thesis
    using loop nil
    by (simp add: reloadCollections_def session_get_def Let_def load_collections_any
        split: sum.splits)
qed

lemma reloadCollections_ok:
  assumes "reloadCollections M self = (Inr (), s1)"
    and "r = session (connection self) (trace self) (GET (getCollectionsURL self))"
  shows "status_code r = 200 \<and>
         (\<exists>res items. subscript (r_json r) ''result'' = Inr res \<and> iterate res = Inr items \<and>
            (\<forall>i \<in> set items. item_name i \<noteq> None) \<and>
            fst ` set (collections s1) = {n. \<exists>i \<in> set items. item_name i = Some n} \<and>
            (\<forall>n c. map_of (collections s1) n = Some c \<longrightarrow>
               (\<exists>i \<in> set items. item_name i = Some n \<and>
                                 c = \<lparr>col_class = loaded_class M i, col_data = i\<rparr>)) \<and>
            trace s1 = trace self @ Request (GET (getCollectionsURL self)) #
                         map warning_of (filter (unknown_type M) items))"
proof -
  let ?s0 = "self\<lparr>trace := trace self @ [Request (GET (getCollectionsURL self))],
                  collections := []\<rparr>"
  from assms have st: "status_code r = 200"
    by (auto simp add: reloadCollections_def session_get_def Let_def split: sum.splits if_splits)
  with assms obtain res where res: "subscript (r_json r) ''result'' = Inr res"
    by (auto simp add: reloadCollections_def session_get_def Let_def split: sum.splits)
  with assms st obtain items where items: "iterate res = Inr items"
    by (auto simp add: reloadCollections_def session_get_def Let_def split: sum.splits)
  with assms st res have "load_collections M ?s0 items = (Inr (), s1)"
    by (simp add: reloadCollections_def session_get_def Let_def)
  from load_collections_ok [OF this] show ?thesis
    using st res items by simp
qed

lemma reloadCollections_well_formed:
  assumes "status_code (session (connection self) (trace self)
                          (GET (getCollectionsURL self))) = 200"
    and "subscript (r_json (session (connection self) (trace self)
                          (GET (getCollectionsURL self)))) ''result'' = Inr (JArr items)"
    and "\<forall>i \<in> set items. well_formed i"
  shows "fst (reloadCollections M self) = Inr ()"
  using assms
  by (simp add: reloadCollections_def session_get_def Let_def load_collections_well_formed)

lemma reload_ok:
  assumes "reload M self = (Inr (), self')"
  shows "\<exists>s1. reloadCollections M self = (Inr (), s1) \<and>
              collections self' = collections s1 \<and>
              trace self' = trace s1 @ [Request (GET (getGraphsURL self))]"
proof -
  from assms obtain s1 where s1: "reloadCollections M self = (Inr (), s1)"
    and g: "reloadGraphs M s1 = (Inr (), self')"
    by (auto simp add: reload_def split: prod.splits sum.splits)
  from reloadCollections_any [of M self] s1 have "name s1 = name self"
    "connection s1 = connection self"
    by simp_all
  then have "getGraphsURL s1 = getGraphsURL self"
    by (simp add: url_defs)
  with reloadGraphs_any [of M s1] g s1 show ?thesis
    by simp
qed

lemma count_warnings: "count_list (map warning_of ws) (Request req) = 0"
  by (induction ws) (simp_all add: warning_of_def)

lemma reload_count:
  "count_list (trace (snd (reload M self))) (Request (GET (getCollectionsURL self))) =
   count_list (trace self) (Request (GET (getCollectionsURL self))) + 1"
proof (cases "reloadCollections M self")
  case (Pair r s1)
  from reloadCollections_any [of M self] Pair obtain ws where
    tr: "trace s1 = trace self @ Request (GET (getCollectionsURL self)) # map warning_of ws"
    and same: "name s1 = name self" "connection s1 = connection self"
    by auto
  have c1: "count_list (trace s1) (Request (GET (getCollectionsURL self))) =
            count_list (trace self) (Request (GET (getCollectionsURL self))) + 1"
    by (simp add: tr count_warnings)
  show ?thesis
  proof (cases r)
    case (Inl e)
    with Pair c1 show ?thesis by (simp add: reload_def)
  next
    case (Inr u)
    have "getGraphsURL s1 = getGraphsURL self"
      using same by (simp add: url_defs)
    moreover have "getGraphsURL self \<noteq> getCollectionsURL self"
      by (simp add: url_defs)
    ultimately show ?thesis
      using Pair Inr c1 reloadGraphs_any [of M s1] by (simp add: reload_def)
  qed
qed

lemma getitem_present:
  "map_of (collections self) n = Some c \<Longrightarrow> getitem M self n = (Inr c, self)"
  by (simp add: getitem_def)

lemma drop_graphs_all:
  "\<forall>k \<in> set ks. map_of (graphs self) k \<noteq> None \<Longrightarrow>
   drop_graphs self ks =
     (Inr (), self\<lparr>trace := trace self @
                 map (\<lambda>k. DeleteGraph k (the (map_of (graphs self) k))) ks\<rparr>)"
proof (induction ks arbitrary: self)
  case Nil
  then show ?case by simp
next
  case (Cons k ks)
  from Cons.prems obtain g where g: "map_of (graphs self) k = Some g"
    by auto
  have "\<forall>k' \<in> set ks. map_of (graphs (delete_graph self k g)) k' \<noteq> None"
    using Cons.prems by (simp add: delete_graph_def)
  from Cons.IH [OF this] show ?case
    using g by (simp add: delete_graph_def)
qed

lemma drop_collections_all:
  "\<forall>k \<in> set ks. map_of (collections self) k \<noteq> None \<Longrightarrow>
   drop_collections M self ks =
     (Inr (), self\<lparr>trace := trace self @
                 map (\<lambda>k. DeleteCollection k (the (map_of (collections self) k)))
                     (filter (\<lambda>k. \<not> startswith_underscore k) ks)\<rparr>)"
proof (induction ks arbitrary: self)
  case Nil
  then show ?case by simp
next
  case (Cons k ks)
  from Cons.prems obtain c where c: "map_of (collections self) k = Some c"
    by auto
  show ?case
  proof (cases "startswith_underscore k")
    case True
    then show ?thesis
      using Cons.IH [of self] Cons.prems by simp
  next
    case False
    have "\<forall>k' \<in> set ks. map_of (collections (delete_collection self k c)) k' \<noteq> None"
      using Cons.prems by (simp add: delete_collection_def)
    from Cons.IH [OF this] show ?thesis
      using c False by (simp add: getitem_present delete_collection_def)
  qed
qed

lemma map_of_keys_filter:
  "distinct (map fst al) \<Longrightarrow>
   map (\<lambda>k. f k (the (map_of al k))) (filter P (map fst al)) =
   map (\<lambda>(k, v). f k v) (filter (\<lambda>(k, v). P k) al)"
proof (induction al)
  case Nil
  then show ?case by simp
next
  case (Cons kv al)
  obtain a b where kv: "kv = (a, b)"
    by (cases kv)
  from Cons.prems kv have fresh: "a \<notin> fst ` set al" and d: "distinct (map fst al)"
    by simp_all
  have same: "map (\<lambda>k. f k (the (map_of ((a, b) # al) k))) (filter P (map fst al)) =
              map (\<lambda>k. f k (the (map_of al k))) (filter P (map fst al))"
    using fresh by (intro map_cong refl) auto
  show ?case
    using Cons.IH [OF d] same kv by simp
qed

lemma map_of_keys:
  "distinct (map fst al) \<Longrightarrow>
   map (\<lambda>k. f k (the (map_of al k))) (map fst al) = map (\<lambda>(k, v). f k v) al"
  using map_of_keys_filter [of al f "\<lambda>k. True"] by simp

lemma count_list_distinct:
  "distinct xs \<Longrightarrow> count_list xs x = (if x \<in> set xs then 1 else 0)"
  by (induction xs) auto

lemma count_list_map_inj:
  "inj f \<Longrightarrow> count_list (map f xs) (f x) = count_list xs x"
  by (induction xs) (auto dest: injD)

lemma count_list_absent: "x \<notin> set xs \<Longrightarrow> count_list xs x = 0"
  by (induction xs) auto

lemma distinct_fst: "distinct (map fst al) \<Longrightarrow> distinct al"
  by (simp add: distinct_map)

lemmas reload_defs = reload_def reloadCollections_def reloadGraphs_def session_get_def
  load_collection_def load_graph_def set_collection_def url_defs

lemma seven: "str_of_int 7 = ''7''"
  by code_simp

lemma reload_fresh: "reload example_modules fresh_db = (Inr (), reloaded_db)"
  by (simp add: reload_defs fresh_db_def reloaded_db_def example_connection_def
      listing_body_def listing_items_def graphs_body_def example_defs seven
      system_obj_def users_obj_def knows_obj_def notes_obj_def odd_obj_def social_obj_def
      other_obj_def)

lemma reloadCollections_stale:
  "reloadCollections example_modules stale_db = (Inr (), half_reloaded_db)"
  by (simp add: reload_defs stale_db_def half_reloaded_db_def half_failing_connection_def
      listing_body_def listing_items_def example_defs seven
      system_obj_def users_obj_def knows_obj_def notes_obj_def odd_obj_def)

lemma listing_result: "subscript listing_body ''result'' = Inr (JArr listing_items)"
  by (simp add: listing_body_def)















lemma validate_with_outcome:
  assumes "r = session (connection self) (trace self)
                 (POST url (cursor_payload query bindVars options))"
  shows "(fst (validate_with self url query bindVars options) = Inr d \<longleftrightarrow>
            status_code r = 201 \<and>
            (\<exists>err. subscript (r_json r) ''error'' = Inr err \<and> \<not> truthy err) \<and>
            d = r_json r) \<and>
         (status_code r \<noteq> 201 \<or>
            (\<exists>err. subscript (r_json r) ''error'' = Inr err \<and> truthy err) \<longrightarrow>
          subscript (r_json r) ''errorMessage'' = Inr msg \<longrightarrow>
          fst (validate_with self url query bindVars options) =
            Inl (AQLQueryError msg query (r_json r)))"
  using assms
  by (auto simp add: validate_with_def session_post_def query_failed_def Let_def
      split: sum.splits)

lemma validate_with_example:
  "fst (validate_with example_db ''http://db:8529/_db/test/_api/cursor'' ''RETURN 1''
          JNull JNull) = Inr valid_body \<and>
   fst (validate_with example_db ''http://db:8529/_db/test/_api/cursor'' ''RETURN''
          JNull JNull) = Inl (AQLQueryError (JStr ''syntax error'') ''RETURN'' invalid_body)"
  by (simp add: validate_with_def session_post_def query_failed_def Let_def example_db_def
      example_connection_def cursor_payload_def valid_body_def invalid_body_def)

lemma transaction_with_outcome:
  assumes "r = session (connection self) (trace self) (POST url payload)"
  shows "(fst (transaction_with self url payload action) = Inr d \<longleftrightarrow>
            (status_code r = 200 \<or> status_code r = 201 \<or> status_code r = 202) \<and>
            (\<exists>err. dict_get (r_json r) ''error'' = Inr err \<and> \<not> truthy err) \<and>
            d = r_json r) \<and>
         (\<not> (status_code r = 200 \<or> status_code r = 201 \<or> status_code r = 202) \<or>
            (\<exists>err. dict_get (r_json r) ''error'' = Inr err \<and> truthy err) \<longrightarrow>
          subscript (r_json r) ''errorMessage'' = Inr msg \<longrightarrow>
          fst (transaction_with self url payload action) =
            Inl (TransactionError msg action (r_json r)))"
  using assms
  by (auto simp add: transaction_with_def session_post_def transaction_failed_def Let_def
      split: sum.splits)

section \<open>transaction\<close>

text \<open>
  C6, as the specification has it: \<open>transaction\<close> returns the decoded response on status
  200, 201 or 202 without an error flag, and raises a Transaction error otherwise. The
  method calls \<open>self.geTransactionURL()\<close>, which class Database does not define (it
  defines \<open>getTransactionURL\<close>): on every input the call raises AttributeError after
  \<open>reportStart\<close> has run, and no request is sent. What the method does once it has a URL
  is \<open>transaction_with\<close>; the lemma \<open>transaction_with_outcome\<close> above shows that this part
  is as the specification says.
\<close>

theorem transaction_raises_AttributeError:
  "transaction self cols action waitForSync lockTimeout params =
     (Inl (AttributeError ''geTransactionURL''),
      self\<lparr>trace := trace self @ [ReportStart action]\<rparr>)"
  by (simp add: transaction_def call_url_method_def Database_getattribute_def
      Database_methods_def object_attributes_def Let_def)

section \<open>Failures leave the registries as they were\<close>

text \<open>
  C10, as the specification has it: on every error path the registries are left
  unchanged. \<open>reload\<close> is an error path on which they are not: when the server answers the
  collection listing and fails on the graph listing, \<open>reload\<close> raises the Update error
  of reloadGraphs after reloadCollections has replaced \<open>collections\<close>; the registry that
  held \<open>notes\<close> alone now holds the five collections of the listing. And when the
  collection listing is answered with status 200 and a body without \<open>result\<close>,
  \<open>reloadCollections\<close> raises after line 53 has emptied \<open>collections\<close>.
\<close>

theorem reload_not_atomic_counterexample:
  "collections stale_db = [(''notes'', notes_obj)] \<and>
   fst (reload example_modules stale_db) = Inl (UpdateError (JStr ''boom'') boom) \<and>
   map fst (collections (snd (reload example_modules stale_db))) =
     [''_graphs'', ''Users'', ''knows'', ''notes'', ''odd''] \<and>
   collections unlisted_db = [(''notes'', notes_obj)] \<and>
   isl (fst (reloadCollections example_modules unlisted_db)) \<and>
   collections (snd (reloadCollections example_modules unlisted_db)) = []"
proof -
  have "fst (reload example_modules stale_db) = Inl (UpdateError (JStr ''boom'') boom) \<and>
      map fst (collections (snd (reload example_modules stale_db))) =
        [''_graphs'', ''Users'', ''knows'', ''notes'', ''odd'']"
    by (simp add: reload_def reloadCollections_stale)
      (simp add: reloadGraphs_def session_get_def half_reloaded_db_def
        half_failing_connection_def url_defs boom_def)
  moreover have "isl (fst (reloadCollections example_modules unlisted_db)) \<and>
      collections (snd (reloadCollections example_modules unlisted_db)) = []"
    by (simp add: reloadCollections_def session_get_def unlisted_db_def
        unlisted_connection_def)
  ultimately show ?thesis
    by (simp add: stale_db_def unlisted_db_def)
qed

text \<open>
  C10, amended. On the four failure paths that the specification lists, the registry
  concerned is left as it was: \<open>reloadCollections\<close> and \<open>reloadGraphs\<close> on a status other
  than 200, \<open>createCollection\<close> when the server answers with a status other than 200 or
  with a true error flag, and \<open>createGraph\<close> on a status other than 201 and 202. Each of
  them raises. \<open>reload\<close> as a whole is not atomic: when reloadCollections has returned and
  the graph listing is answered with a status other than 200, it raises with
  \<open>collections\<close> as reloadCollections left it and \<open>graphs\<close> as it was. Nothing is said of
  the error paths that follow a status 200 of a listing.
\<close>

theorem failure_leaves_registries:
  "(status_code (session (connection self) (trace self) (GET (getCollectionsURL self))) \<noteq> 200 \<longrightarrow>
      isl (fst (reloadCollections M self)) \<and>
      collections (snd (reloadCollections M self)) = collections self) \<and>
   (status_code (session (connection self) (trace self) (GET (getGraphsURL self))) \<noteq> 200 \<longrightarrow>
      isl (fst (reloadGraphs M self)) \<and>
      graphs (snd (reloadGraphs M self)) = graphs self) \<and>
   (createCollection_payload M self className colProperties = Inr (colClass, props) \<longrightarrow>
      (status_code (session (connection self) (trace self)
                      (POST (getCollectionsURL self) (JObj props))) \<noteq> 200 \<or>
       (\<exists>err. subscript (r_json (session (connection self) (trace self)
                      (POST (getCollectionsURL self) (JObj props)))) ''error'' = Inr err \<and>
              truthy err)) \<longrightarrow>
      isl (fst (createCollection M self className colProperties)) \<and>
      collections (snd (createCollection M self className colProperties)) = collections self) \<and>
   (createGraph_payload M gname isSmart numberOfShards smartGraphAttribute =
      Inr (graphClass, payload) \<longrightarrow>
      status_code (session (connection self) (trace self)
                     (POST (getGraphsURL self) payload)) \<noteq> 201 \<longrightarrow>
      status_code (session (connection self) (trace self)
                     (POST (getGraphsURL self) payload)) \<noteq> 202 \<longrightarrow>
      isl (fst (createGraph M self gname createCollections isSmart numberOfShards
                  smartGraphAttribute)) \<and>
      graphs (snd (createGraph M self gname createCollections isSmart numberOfShards
                  smartGraphAttribute)) = graphs self) \<and>
   (reloadCollections M self = (Inr (), between) \<longrightarrow>
      status_code (session (connection between) (trace between) (GET (getGraphsURL between))) \<noteq> 200 \<longrightarrow>
      isl (fst (reload M self)) \<and>
      collections (snd (reload M self)) = collections between \<and>
      graphs (snd (reload M self)) = graphs self)"
proof (intro conjI impI)
  assume "status_code (session (connection self) (trace self) (GET (getCollectionsURL self))) \<noteq> 200"
  then show "isl (fst (reloadCollections M self))"
    and "collections (snd (reloadCollections M self)) = collections self"
    by (simp_all add: reloadCollections_def session_get_def Let_def split: sum.splits)
next
  assume "status_code (session (connection self) (trace self) (GET (getGraphsURL self))) \<noteq> 200"
  then show "isl (fst (reloadGraphs M self))"
    and "graphs (snd (reloadGraphs M self)) = graphs self"
    by (simp_all add: reloadGraphs_def session_get_def Let_def split: sum.splits)
next
  assume "createCollection_payload M self className colProperties = Inr (colClass, props)"
    and "status_code (session (connection self) (trace self)
                      (POST (getCollectionsURL self) (JObj props))) \<noteq> 200 \<or>
       (\<exists>err. subscript (r_json (session (connection self) (trace self)
                      (POST (getCollectionsURL self) (JObj props)))) ''error'' = Inr err \<and>
              truthy err)"
  then show "isl (fst (createCollection M self className colProperties))"
    and "collections (snd (createCollection M self className colProperties)) = collections self"
    by (auto simp add: createCollection_def session_post_def Let_def split: sum.splits)
next
  assume "createGraph_payload M gname isSmart numberOfShards smartGraphAttribute =
      Inr (graphClass, payload)"
    and "status_code (session (connection self) (trace self)
                     (POST (getGraphsURL self) payload)) \<noteq> 201"
    and "status_code (session (connection self) (trace self)
                     (POST (getGraphsURL self) payload)) \<noteq> 202"
  then show "isl (fst (createGraph M self gname createCollections isSmart numberOfShards
                  smartGraphAttribute))"
    and "graphs (snd (createGraph M self gname createCollections isSmart numberOfShards
                  smartGraphAttribute)) = graphs self"
    by (simp_all add: createGraph_def session_post_def Let_def split: sum.splits)
next
  assume first: "reloadCollections M self = (Inr (), between)"
    and failed: "status_code (session (connection between) (trace between) (GET (getGraphsURL between))) \<noteq> 200"
  have same: "graphs between = graphs self"
    using reloadCollections_any [of M self] first by simp
  have run: "reload M self = reloadGraphs M between"
    using first by (simp add: reload_def)
  from failed show "isl (fst (reload M self))"
    and "collections (snd (reload M self)) = collections between"
    and "graphs (snd (reload M self)) = graphs self"
    unfolding run
    by (simp_all add: reloadGraphs_def session_get_def Let_def same split: sum.splits)
qed


theorem failure_leaves_registries_witness:
  "isl (fst (reloadCollections example_modules failing_db)) \<and>
   collections (snd (reloadCollections example_modules failing_db)) = [(''notes'', notes_obj)] \<and>
   isl (fst (reloadGraphs example_modules failing_db)) \<and>
   graphs (snd (reloadGraphs example_modules failing_db)) = [(''Social'', social_obj)] \<and>
   isl (fst (createCollection example_modules failing_db ''Users'' [])) \<and>
   collections (snd (createCollection example_modules failing_db ''Users'' [])) =
     [(''notes'', notes_obj)] \<and>
   isl (fst (createGraph example_modules failing_db ''Social'' True (JBool False) JNull JNull)) \<and>
   graphs (snd (createGraph example_modules failing_db ''Social'' True (JBool False) JNull JNull)) =
     [(''Social'', social_obj)] \<and>
   isl (fst (reload example_modules stale_db)) \<and>
   collections (snd (reload example_modules stale_db)) = collections half_reloaded_db \<and>
   graphs (snd (reload example_modules stale_db)) = [(''Social'', social_obj)]"
proof -
  have h: "status_code (session (connection half_reloaded_db) (trace half_reloaded_db)
             (GET (getGraphsURL half_reloaded_db))) = 500"
    by (simp add: half_reloaded_db_def half_failing_connection_def url_defs)
  have gs: "graphs stale_db = [(''Social'', social_obj)]"
    by (simp add: stale_db_def)
  have s: "\<And>tr req. status_code (session (connection failing_db) tr req) = 500"
    by (simp add: failing_db_def failing_connection_def)
  have c: "collections failing_db = [(''notes'', notes_obj)]"
    and g: "graphs failing_db = [(''Social'', social_obj)]"
    by (simp_all add: failing_db_def)
  show ?thesis
    using failure_leaves_registries [where self = failing_db and M = example_modules
        and className = "''Users''" and colProperties = "[]" and colClass = users_class
        and props = "[(''waitForSync'', JBool True), (''name'', JStr ''Users''), (''type'', JInt 3)]"
        and gname = "''Social''" and isSmart = "JBool False" and numberOfShards = JNull
        and smartGraphAttribute = JNull and graphClass = social_graph
        and payload = "JObj [(''name'', JStr ''Social''),
     (''edgeDefinitions'', JArr [JObj [(''collection'', JStr ''Friend''),
         (''from'', JArr [JStr ''Users'']), (''to'', JArr [JStr ''Users''])]]),
     (''orphanCollections'', JArr [])]" and createCollections = True]
      failure_leaves_registries [where self = stale_db and M = example_modules
        and between = half_reloaded_db]
    by (simp add: s c g ex_payload ex_gpayload reloadCollections_stale h gs)
qed

section \<open>createCollection\<close>

text \<open>
  C4, as the specification has it: with a name that is already a key of \<open>collections\<close>
  createCollection raises a Creation error. The class lookup of line 101 comes first:
  \<open>notes\<close> is a key of \<open>collections\<close> (reload loads a collection without a class of its
  own as a generic one) and no class is registered under that name, so
  \<open>createCollection('notes')\<close> raises the KeyError of the lookup, not a Creation error.
\<close>

theorem createCollection_unregistered_counterexample:
  "hasCollection example_db ''notes'' \<and>
   getCollectionClass example_modules ''notes'' = None \<and>
   createCollection example_modules example_db ''notes'' [(''waitForSync'', JBool False)] =
     (Inl (KeyError ''notes''), example_db)"
  by (simp add: hasCollection_def example_db_def createCollection_def
      createCollection_payload_def example_modules_def example_classes_def)

text \<open>
  C4, amended. createCollection raises before any request is sent, leaving the Database
  as it was: the KeyError of the class lookup when no class is registered under the type
  name, whether or not that name is a key of \<open>collections\<close>; and, for a type name that
  resolves, a Creation error when the name is already a key of \<open>collections\<close> (the type
  name for a named type, the \<open>name\<close> property for the generic types Collection and
  Edges), and a ValueError when the type is generic and the properties (the caller's, or
  the class's defaults when the caller gives none) have no \<open>name\<close>. In each case the
  resulting state is the state before the call, trace included: no POST.
\<close>

theorem createCollection_prevalidation:
  "(getCollectionClass M className = None \<longrightarrow>
      createCollection M self className colProperties = (Inl (KeyError className), self)) \<and>
   (getCollectionClass M className = Some colClass \<longrightarrow>
      className \<noteq> ''Collection'' \<and> className \<noteq> ''Edges'' \<longrightarrow>
      hasCollection self className \<longrightarrow>
      createCollection M self className colProperties =
        (Inl (CreationError (JStr (''Database '' @ name self @
                '' already has a collection named '' @ className)) None), self)) \<and>
   (getCollectionClass M className = Some colClass \<longrightarrow>
      className = ''Collection'' \<or> className = ''Edges'' \<longrightarrow>
      map_of (initial_properties colClass colProperties) ''name'' = Some (JStr n) \<longrightarrow>
      hasCollection self n \<longrightarrow>
      createCollection M self className colProperties =
        (Inl (CreationError (JStr (''Database '' @ name self @
                '' already has a collection named '' @ n)) None), self)) \<and>
   (getCollectionClass M className = Some colClass \<longrightarrow>
      className = ''Collection'' \<or> className = ''Edges'' \<longrightarrow>
      map_of (initial_properties colClass colProperties) ''name'' = None \<longrightarrow>
      createCollection M self className colProperties =
        (Inl (ValueError (''a '' @ [CHR 0x27] @ ''name'' @ [CHR 0x27] @
           '' argument mush be supplied if you want to create a generic collection'')),
         self))"
  by (auto simp add: createCollection_def createCollection_payload_def named_properties_def
      check_unused_def hasCollection_def already_has_def update_conv' generic_name_missing_def)

theorem createCollection_prevalidation_witness:
  "createCollection example_modules example_db ''knows'' [] =
     (Inl (KeyError ''knows''), example_db) \<and>
   createCollection example_modules example_db ''Users'' [(''waitForSync'', JBool False)] =
     (Inl (CreationError (JStr ''Database test already has a collection named Users'') None),
      example_db) \<and>
   createCollection example_modules example_db ''Collection'' [(''name'', JStr ''notes'')] =
     (Inl (CreationError (JStr ''Database test already has a collection named notes'') None),
      example_db) \<and>
   createCollection example_modules example_db ''Edges'' [(''waitForSync'', JBool False)] =
     (Inl (ValueError (''a '' @ [CHR 0x27] @ ''name'' @ [CHR 0x27] @
           '' argument mush be supplied if you want to create a generic collection'')),
      example_db)"
proof -
  have c: "getCollectionClass example_modules ''knows'' = None"
    "getCollectionClass example_modules ''Users'' = Some users_class"
    "getCollectionClass example_modules ''Collection'' = Some generic_collection"
    "getCollectionClass example_modules ''Edges'' = Some generic_edges"
    by (simp_all add: example_modules_def example_classes_def)
  have h: "hasCollection example_db ''Users''" "hasCollection example_db ''notes''"
    by (simp_all add: hasCollection_def example_db_def)
  have n: "name example_db = ''test''"
    by (simp add: example_db_def)
  show ?thesis
    using createCollection_prevalidation [where M = example_modules and self = example_db
        and className = "''knows''" and colProperties = "[]"]
      createCollection_prevalidation [where M = example_modules and self = example_db
        and className = "''Users''" and colClass = users_class
        and colProperties = "[(''waitForSync'', JBool False)]"]
      createCollection_prevalidation [where M = example_modules and self = example_db
        and className = "''Collection''" and colClass = generic_collection
        and colProperties = "[(''name'', JStr ''notes'')]" and n = "''notes''"]
      createCollection_prevalidation [where M = example_modules and self = example_db
        and className = "''Edges''" and colClass = generic_edges
        and colProperties = "[(''waitForSync'', JBool False)]"]
    by (simp add: c h n initial_properties_def)
qed

text \<open>
  C1, as the specification has it: the POST body holds the declared defaults merged with
  the caller's properties. The specification's merge is \<open>merged_properties\<close>. At the class
  \<open>Users\<close>, whose defaults are \<open>waitForSync = True\<close>, a call with the one property
  \<open>isVolatile = False\<close> sends a body without \<open>waitForSync\<close>, where the merge has it.
\<close>

theorem defaults_dropped_counterexample:
  "getCollectionClass example_modules ''Users'' = Some users_class \<and>
   cls_properties users_class = Some [(''waitForSync'', JBool True)] \<and>
   trace (snd (createCollection example_modules failing_db ''Users''
                 [(''isVolatile'', JBool False)])) =
     [Request (POST ''http://db:8529/_db/test/_api/collection''
        (JObj [(''isVolatile'', JBool False), (''name'', JStr ''Users''), (''type'', JInt 3)]))] \<and>
   map_of (merged_properties [(''waitForSync'', JBool True)] [(''isVolatile'', JBool False)])
     ''waitForSync'' = Some (JBool True)"
  by (simp add: createCollection_def createCollection_payload_def example_defs failing_db_def
        initial_properties_def named_properties_def check_unused_def wire_type_def
        session_post_def failing_connection_def url_defs creation_failed_def boom_def
        merged_properties_def)

text \<open>
  C1, amended. When createCollection gets as far as the request, the body it posts holds,
  apart from \<open>name\<close> and \<open>type\<close>, the caller's properties alone when the caller gives at
  least one, and the class's declared defaults only when the caller gives none; \<open>type\<close>
  is the wire code of the class, and \<open>name\<close> is the type name for a named type.
\<close>

theorem createCollection_body:
  assumes "createCollection_payload M self className colProperties = Inr (colClass, props)"
  shows "trace (snd (createCollection M self className colProperties)) =
           trace self @ [Request (POST (getCollectionsURL self) (JObj props))] \<and>
         getCollectionClass M className = Some colClass \<and>
         (\<forall>k. k \<noteq> ''name'' \<longrightarrow> k \<noteq> ''type'' \<longrightarrow>
            map_of props k =
              (if colProperties \<noteq> [] then map_of colProperties k
               else map_of (case cls_properties colClass of Some d \<Rightarrow> d | None \<Rightarrow> []) k)) \<and>
         map_of props ''type'' = Some (JInt (wire_type M colClass)) \<and>
         map_of props ''name'' =
           (if className \<noteq> ''Collection'' \<and> className \<noteq> ''Edges'' then Some (JStr className)
            else if colProperties \<noteq> [] then map_of colProperties ''name''
            else map_of (case cls_properties colClass of Some d \<Rightarrow> d | None \<Rightarrow> []) ''name'')"
proof -
  have t: "trace (snd (createCollection M self className colProperties)) =
           trace self @ [Request (POST (getCollectionsURL self) (JObj props))]"
    using assms
    by (simp add: createCollection_def session_post_def set_collection_def Let_def
        split: sum.splits)
  have p: "getCollectionClass M className = Some colClass \<and>
      (\<exists>base. named_properties className (initial_properties colClass colProperties) = Inr base \<and>
         props = AList.update ''type'' (JInt (wire_type M colClass)) base)"
    using assms
    by (auto simp add: createCollection_payload_def split: option.splits sum.splits)
  then obtain base where b: "named_properties className (initial_properties colClass colProperties) = Inr base"
    and pr: "props = AList.update ''type'' (JInt (wire_type M colClass)) base"
    by blast
  show ?thesis
    using t p b pr
    by (auto simp add: named_properties_def initial_properties_def update_conv'
        split: if_splits)
qed

theorem createCollection_body_witness:
  "trace (snd (createCollection example_modules failing_db ''Users''
                 [(''isVolatile'', JBool False)])) =
     [Request (POST ''http://db:8529/_db/test/_api/collection''
        (JObj [(''isVolatile'', JBool False), (''name'', JStr ''Users''), (''type'', JInt 3)]))]"
proof -
  have p: "createCollection_payload example_modules failing_db ''Users''
             [(''isVolatile'', JBool False)] =
           Inr (users_class,
                [(''isVolatile'', JBool False), (''name'', JStr ''Users''), (''type'', JInt 3)])"
    by (simp add: createCollection_payload_def example_defs failing_db_def
        initial_properties_def named_properties_def check_unused_def wire_type_def)
  show ?thesis
    using createCollection_body [OF p]
    by (simp add: failing_db_def failing_connection_def url_defs)
qed

section \<open>createGraph\<close>

text \<open>
  C5, as the specification has it: when a referenced collection is not a known
  collection type, the ValueError names the first such collection. The edge collection
  of an edge definition is checked first, and it must be a known edge collection type:
  with the edge collection \<open>Users\<close>, a known document collection, and the endpoint
  \<open>Ghost\<close>, which is not known, the error names \<open>Users\<close> and not \<open>Ghost\<close>.
\<close>

theorem createGraph_names_known_collection_counterexample:
  "isCollection example_modules ''Users'' \<and>
   \<not> isCollection example_modules ''Ghost'' \<and>
   references misused_graph = [(True, ''Users''), (False, ''Ghost''), (False, ''Users'')] \<and>
   createGraph example_modules example_db ''Misused'' True (JBool False) JNull JNull =
     (Inl (ValueError ([CHR 0x27] @ ''Users'' @ [CHR 0x27] @
             '' is not a defined Edge Collection'')), example_db)"
  by (simp add: references_def createGraph_def createGraph_payload_def example_defs
      not_defined_edge_collection_def)

text \<open>
  C5, amended. A graph name under which no graph class is registered raises the KeyError
  of the class lookup. For a graph name that resolves: when some reference of the graph class
  fails its check (an edge collection that is not a known edge collection type, or a
  "from", "to" or orphan collection that is not a known collection type), createGraph
  raises a ValueError whose message names the first such reference in the order of the
  checks, with the wording for its role, and leaves the Database as it was, trace
  included: no request is sent. A reference to a collection that is not a known
  collection type fails its check, every known edge collection type being a known
  collection type.
\<close>

theorem createGraph_validation:
  "(getGraphClass M gname = None \<longrightarrow>
      createGraph M self gname createCollections isSmart numberOfShards smartGraphAttribute =
        (Inl (KeyError gname), self)) \<and>
   (getGraphClass M gname = Some graphClass \<longrightarrow>
      (\<exists>c \<in> set (references graphClass). offending M c) \<longrightarrow>
      (\<exists>c. find (offending M) (references graphClass) = Some c \<and>
           createGraph M self gname createCollections isSmart numberOfShards
             smartGraphAttribute =
             (Inl (ValueError ([CHR 0x27] @ snd c @ [CHR 0x27] @
                     (if fst c then '' is not a defined Edge Collection''
                      else '' is not a defined Collection''))), self))) \<and>
   ((\<forall>n. isEdgeCollection M n \<longrightarrow> isCollection M n) \<longrightarrow>
      (\<forall>c. \<not> isCollection M (snd c) \<longrightarrow> offending M c))"
proof (intro conjI impI)
  assume "getGraphClass M gname = None"
  then show "createGraph M self gname createCollections isSmart numberOfShards
      smartGraphAttribute = (Inl (KeyError gname), self)"
    by (simp add: createGraph_def createGraph_payload_def)
next
  assume g: "getGraphClass M gname = Some graphClass"
    and some: "\<exists>c \<in> set (references graphClass). offending M c"
  from some have "find (offending M) (references graphClass) \<noteq> None"
    unfolding find_None_iff by blast
  then obtain c where c: "find (offending M) (references graphClass) = Some c"
    by blast
  have "createGraph M self gname createCollections isSmart numberOfShards
             smartGraphAttribute = (Inl (validation_error c), self)"
    using createGraph_payload_find [OF g c] by (simp add: createGraph_def)
  with c show "\<exists>c. find (offending M) (references graphClass) = Some c \<and>
           createGraph M self gname createCollections isSmart numberOfShards
             smartGraphAttribute =
             (Inl (ValueError ([CHR 0x27] @ snd c @ [CHR 0x27] @
                     (if fst c then '' is not a defined Edge Collection''
                      else '' is not a defined Collection''))), self)"
    by (auto simp add: validation_error_def)
next
  assume "\<forall>n. isEdgeCollection M n \<longrightarrow> isCollection M n"
  then show "\<forall>c. \<not> isCollection M (snd c) \<longrightarrow> offending M c"
    by (auto simp add: offending_def)
qed

theorem createGraph_validation_witness:
  "createGraph example_modules example_db ''Haunted'' True (JBool False) JNull JNull =
     (Inl (ValueError ([CHR 0x27] @ ''Ghost'' @ [CHR 0x27] @ '' is not a defined Collection'')),
      example_db) \<and>
   createGraph example_modules example_db ''Misused'' True (JBool False) JNull JNull =
     (Inl (ValueError ([CHR 0x27] @ ''Users'' @ [CHR 0x27] @
             '' is not a defined Edge Collection'')), example_db) \<and>
   offending example_modules (False, ''Ghost'') \<and>
   createGraph example_modules example_db ''Unknown'' True (JBool False) JNull JNull =
     (Inl (KeyError ''Unknown''), example_db)"
proof -
  have g: "getGraphClass example_modules ''Haunted'' = Some haunted_graph"
    "getGraphClass example_modules ''Misused'' = Some misused_graph"
    "getGraphClass example_modules ''Unknown'' = None"
    by (simp_all add: example_modules_def)
  have e: "\<forall>n. isEdgeCollection example_modules n \<longrightarrow> isCollection example_modules n"
    by (simp add: example_modules_def split: option.splits)
  have r: "references haunted_graph =
      [(True, ''Friend''), (False, ''Users''), (False, ''Users''), (False, ''Ghost''),
       (False, ''Phantom'')]"
    "references misused_graph = [(True, ''Users''), (False, ''Ghost''), (False, ''Users'')]"
    by (simp_all add: references_def haunted_graph_def misused_graph_def)
  have f: "find (offending example_modules) (references haunted_graph) = Some (False, ''Ghost'')"
    "find (offending example_modules) (references misused_graph) = Some (True, ''Users'')"
    by (simp_all add: r offending_def example_modules_def example_classes_def friend_class_def
        users_class_def)
  have u: "\<exists>c \<in> set (references haunted_graph). offending example_modules c"
    "\<exists>c \<in> set (references misused_graph). offending example_modules c"
    by (simp_all add: r offending_def example_modules_def example_classes_def)
  have k: "\<not> isCollection example_modules (snd (False, ''Ghost''))"
    by (simp add: example_modules_def example_classes_def)
  show ?thesis
    using createGraph_validation [where M = example_modules and gname = "''Haunted''"
        and graphClass = haunted_graph and self = example_db and createCollections = True
        and isSmart = "JBool False" and numberOfShards = JNull and smartGraphAttribute = JNull]
      createGraph_validation [where M = example_modules and gname = "''Misused''"
        and graphClass = misused_graph and self = example_db and createCollections = True
        and isSmart = "JBool False" and numberOfShards = JNull and smartGraphAttribute = JNull]
      createGraph_validation [where M = example_modules and gname = "''Unknown''"
        and self = example_db and createCollections = True
        and isSmart = "JBool False" and numberOfShards = JNull and smartGraphAttribute = JNull]
      g e u k
    by (simp add: f)
qed

section \<open>validateAQLQuery\<close>

text \<open>
  C7, as the specification has it: validateAQLQuery returns the decoded response exactly
  when the status is 201 and the error flag is false, and raises a Query error otherwise.
  The method calls \<open>self.getCursorsURL()\<close>, and class Database has no such method, its
  \<open>def\<close> line being malformed: on every input the call fails before any request is
  sent, and nothing is returned. What the method does once it has a URL is
  \<open>validate_with\<close>; the lemma \<open>validate_with_outcome\<close> above shows that this part is as
  the specification says.
\<close>

theorem validateAQLQuery_raises_AttributeError:
  "validateAQLQuery self query bindVars options = (Inl (AttributeError ''getCursorsURL''), self)"
  by (simp add: validateAQLQuery_def call_url_method_def Database_getattribute_def
      Database_methods_def object_attributes_def)

section \<open>Indexed lookup\<close>

text \<open>
  C2, as the specification has it: on a local miss the lookup reloads once, retries, and
  then returns the handle when the name is present and raises the not-found error when it
  is still absent. When the reload itself raises, the lookup is not retried: with the
  server answering 500 the name \<open>Users\<close> is absent before and after, and the lookup raises
  the reload's Update error, not the not-found error.
\<close>

theorem getitem_reload_fails_counterexample:
  "map_of (collections failing_db) ''Users'' = None \<and>
   fst (getitem example_modules failing_db ''Users'') = Inl (UpdateError (JStr ''boom'') boom) \<and>
   map_of (collections (snd (getitem example_modules failing_db ''Users''))) ''Users'' = None"
  by (simp add: getitem_def reload_defs failing_db_def failing_connection_def boom_def)

text \<open>
  C2, amended. A name that is a key of \<open>collections\<close> is answered from the mapping, the
  Database (trace included) unchanged: no reload. For a name that is not, \<open>reload\<close> runs
  exactly once (the trace gains exactly one request for the collection listing, and the
  resulting state is the state that this one reload leaves): when it raises, its error
  is the lookup's; when it returns, the lookup returns the handle that is now under the
  name, or raises the not-found KeyError when the name is still absent.
\<close>

theorem getitem_lookup:
  "(map_of (collections self) n = Some c \<longrightarrow> getitem M self n = (Inr c, self)) \<and>
   (map_of (collections self) n = None \<longrightarrow>
      count_list (trace (snd (getitem M self n))) (Request (GET (getCollectionsURL self))) =
        count_list (trace self) (Request (GET (getCollectionsURL self))) + 1 \<and>
      (\<forall>e self'. reload M self = (Inl e, self') \<longrightarrow> getitem M self n = (Inl e, self')) \<and>
      (\<forall>self' c'. reload M self = (Inr (), self') \<longrightarrow>
         map_of (collections self') n = Some c' \<longrightarrow> getitem M self n = (Inr c', self')) \<and>
      (\<forall>self'. reload M self = (Inr (), self') \<longrightarrow>
         map_of (collections self') n = None \<longrightarrow>
         getitem M self n = (Inl (not_found n), self')))"
proof (intro conjI impI)
  assume "map_of (collections self) n = Some c"
  then show "getitem M self n = (Inr c, self)"
    by (simp add: getitem_def)
next
  assume absent: "map_of (collections self) n = None"
  have "snd (getitem M self n) = snd (reload M self)"
    using absent by (simp add: getitem_def split: prod.splits sum.splits option.splits)
  then show "count_list (trace (snd (getitem M self n)))
               (Request (GET (getCollectionsURL self))) =
             count_list (trace self) (Request (GET (getCollectionsURL self))) + 1"
    by (simp add: reload_count)
  show "\<forall>e self'. reload M self = (Inl e, self') \<longrightarrow> getitem M self n = (Inl e, self')"
    using absent by (simp add: getitem_def)
  show "\<forall>self' c'. reload M self = (Inr (), self') \<longrightarrow>
         map_of (collections self') n = Some c' \<longrightarrow> getitem M self n = (Inr c', self')"
    using absent by (simp add: getitem_def)
  show "\<forall>self'. reload M self = (Inr (), self') \<longrightarrow>
         map_of (collections self') n = None \<longrightarrow>
         getitem M self n = (Inl (not_found n), self')"
    using absent by (simp add: getitem_def)
qed

theorem getitem_lookup_witness:
  "getitem example_modules example_db ''notes'' = (Inr notes_obj, example_db) \<and>
   getitem example_modules fresh_db ''notes'' = (Inr notes_obj, reloaded_db) \<and>
   getitem example_modules fresh_db ''nope'' = (Inl (not_found ''nope''), reloaded_db) \<and>
   count_list (trace (snd (getitem example_modules fresh_db ''nope'')))
     (Request (GET (getCollectionsURL fresh_db))) = 1"
proof -
  have p: "map_of (collections example_db) ''notes'' = Some notes_obj"
    by (simp add: example_db_def)
  have a: "map_of (collections fresh_db) ''notes'' = None"
    "map_of (collections fresh_db) ''nope'' = None" "trace fresh_db = []"
    by (simp_all add: fresh_db_def)
  have r: "map_of (collections reloaded_db) ''notes'' = Some notes_obj"
    "map_of (collections reloaded_db) ''nope'' = None"
    by (simp_all add: reloaded_db_def)
  show ?thesis
    using getitem_lookup [of example_db "''notes''" notes_obj example_modules]
      getitem_lookup [of fresh_db "''notes''" _ example_modules]
      getitem_lookup [of fresh_db "''nope''" _ example_modules]
    by (simp add: p a r reload_fresh)
      (simp add: reloaded_db_def fresh_db_def example_connection_def url_defs)
qed

section \<open>reload\<close>

text \<open>
  C3, as the specification has it: after a successful reload every entry is classified
  as system, edge or document from the \<open>isSystem\<close> and \<open>type\<close> fields of the listing.
  With a class \<open>Friend\<close> derived from Edges registered, and a server that lists a
  collection \<open>Friend\<close> of the document type, the entry is an object of class \<open>Friend\<close>, an
  edge collection, where the fields say document.
\<close>

theorem reload_classification_counterexample:
  "fst (reload example_modules mismatch_db) = Inr () \<and>
   map_of (collections (snd (reload example_modules mismatch_db))) ''Friend'' =
     Some \<lparr>col_class = friend_class, col_data = friend_item\<rparr> \<and>
   kind_of_class example_modules friend_class = EdgeKind \<and>
   kind_by_fields example_modules friend_item = DocumentKind"
  by (simp add: reload_defs mismatch_db_def mismatch_connection_def friend_item_def
      example_defs kind_of_class_def kind_by_fields_def is_system_def has_type_def)

text \<open>
  C3, amended. With \<open>r\<close> the server's answer to the collection listing: when \<open>reload\<close>
  returns, the status was 200, the keys of \<open>collections\<close> are exactly the names of the
  listing's elements, and the entry under a name is built from an element of that name,
  with the class \<open>loaded_class\<close>: SystemCollection when \<open>isSystem\<close> is set; otherwise the
  class registered under the name when there is one; otherwise Edges or Collection by
  the \<open>type\<close> field, an unknown code giving Collection. The trace shows the collection
  listing requested first, one warning printed for each element of unknown type, and the
  graph listing requested last. No type code makes reloadCollections raise: on status
  200 with a list of well-formed elements it returns.
\<close>

theorem reload_collections_registry:
  assumes "r = session (connection self) (trace self) (GET (getCollectionsURL self))"
  shows "(reload M self = (Inr (), self') \<longrightarrow>
            status_code r = 200 \<and>
            (\<exists>res items.
               subscript (r_json r) ''result'' = Inr res \<and> iterate res = Inr items \<and>
               (\<forall>i \<in> set items. item_name i \<noteq> None) \<and>
               fst ` set (collections self') = {n. \<exists>i \<in> set items. item_name i = Some n} \<and>
               (\<forall>n c. map_of (collections self') n = Some c \<longrightarrow>
                  (\<exists>i \<in> set items. item_name i = Some n \<and>
                     c = \<lparr>col_class = loaded_class M i, col_data = i\<rparr>)) \<and>
               trace self' =
                 trace self @ [Request (GET (getCollectionsURL self))] @
                 map warning_of (filter (unknown_type M) items) @
                 [Request (GET (getGraphsURL self))])) \<and>
         (status_code r = 200 \<longrightarrow> subscript (r_json r) ''result'' = Inr (JArr items') \<longrightarrow>
            (\<forall>i \<in> set items'. well_formed i) \<longrightarrow>
            fst (reloadCollections M self) = Inr ()) \<and>
         (\<forall>i. unknown_type M i \<longrightarrow> loaded_class M i = Collection M)"
proof (intro conjI impI)
  assume ok: "reload M self = (Inr (), self')"
  from reload_ok [OF ok] obtain s1 where s1: "reloadCollections M self = (Inr (), s1)"
    and c: "collections self' = collections s1"
    and t: "trace self' = trace s1 @ [Request (GET (getGraphsURL self))]"
    by blast
  from reloadCollections_ok [OF s1 assms] show "status_code r = 200"
    by blast
  from reloadCollections_ok [OF s1 assms] show "\<exists>res items.
               subscript (r_json r) ''result'' = Inr res \<and> iterate res = Inr items \<and>
               (\<forall>i \<in> set items. item_name i \<noteq> None) \<and>
               fst ` set (collections self') = {n. \<exists>i \<in> set items. item_name i = Some n} \<and>
               (\<forall>n c. map_of (collections self') n = Some c \<longrightarrow>
                  (\<exists>i \<in> set items. item_name i = Some n \<and>
                     c = \<lparr>col_class = loaded_class M i, col_data = i\<rparr>)) \<and>
               trace self' =
                 trace self @ [Request (GET (getCollectionsURL self))] @
                 map warning_of (filter (unknown_type M) items) @
                 [Request (GET (getGraphsURL self))]"
    unfolding c t by auto
next
  assume "status_code r = 200" and "subscript (r_json r) ''result'' = Inr (JArr items')"
    and "\<forall>i \<in> set items'. well_formed i"
  then show "fst (reloadCollections M self) = Inr ()"
    using assms by (simp add: reloadCollections_well_formed)
next
  show "\<forall>i. unknown_type M i \<longrightarrow> loaded_class M i = Collection M"
    by (simp add: unknown_type_def loaded_class_def)
qed

theorem reload_collections_registry_witness:
  "reload example_modules fresh_db = (Inr (), reloaded_db) \<and>
   fst ` set (collections reloaded_db) =
     {n. \<exists>i \<in> set listing_items. item_name i = Some n} \<and>
   fst (reloadCollections example_modules fresh_db) = Inr ()"
proof -
  have r: "session (connection fresh_db) (trace fresh_db) (GET (getCollectionsURL fresh_db)) =
           \<lparr>status_code = 200, r_json = listing_body\<rparr>"
    by (simp add: fresh_db_def example_connection_def url_defs)
  have w: "\<forall>i \<in> set listing_items. well_formed i"
    by (simp add: listing_items_def well_formed_def item_name_def)
  show ?thesis
    using reload_collections_registry [OF r [symmetric], of example_modules reloaded_db
        listing_items]
    by (simp add: reload_fresh listing_result w)
qed

section \<open>dropAllCollections\<close>

text \<open>
  C8. The keys of a Python dict are distinct. dropAllCollections returns, and what it adds
  to the trace is one \<open>delete\<close> for every entry of \<open>graphs\<close>, in order, followed by one
  \<open>delete\<close> for every entry of \<open>collections\<close> whose name does not start with an
  underscore: each of these exactly once, none for a name that starts with an underscore,
  and no request, so no reload. The registries are as before.
\<close>

theorem dropAllCollections_deletes:
  assumes "distinct (map fst (graphs self))" and "distinct (map fst (collections self))"
  shows "\<exists>new. dropAllCollections M self = (Inr (), self\<lparr>trace := trace self @ new\<rparr>) \<and>
           new = map (\<lambda>(k, g). DeleteGraph k g) (graphs self) @
                 map (\<lambda>(k, c). DeleteCollection k c)
                     (filter (\<lambda>(k, c). \<not> startswith_underscore k) (collections self)) \<and>
           (\<forall>k g. count_list new (DeleteGraph k g) =
                    (if (k, g) \<in> set (graphs self) then 1 else 0)) \<and>
           (\<forall>k c. count_list new (DeleteCollection k c) =
                    (if (k, c) \<in> set (collections self) \<and> \<not> startswith_underscore k
                     then 1 else 0)) \<and>
           (\<forall>req. Request req \<notin> set new)"
proof -
  let ?gs = "map (\<lambda>(k, g). DeleteGraph k g) (graphs self)"
  let ?kept = "filter (\<lambda>(k, c). \<not> startswith_underscore k) (collections self)"
  let ?cs = "map (\<lambda>(k, c). DeleteCollection k c) ?kept"
  have keys_g: "\<forall>k \<in> set (map fst (graphs self)). map_of (graphs self) k \<noteq> None"
    by (simp add: map_of_eq_None_iff)
  have step1: "drop_graphs self (map fst (graphs self)) =
                 (Inr (), self\<lparr>trace := trace self @ ?gs\<rparr>)"
    using drop_graphs_all [OF keys_g] map_of_keys [OF assms(1), of DeleteGraph]
    by simp
  let ?s1 = "self\<lparr>trace := trace self @ ?gs\<rparr>"
  have keys_c: "\<forall>k \<in> set (map fst (collections ?s1)). map_of (collections ?s1) k \<noteq> None"
    by (simp add: map_of_eq_None_iff)
  have step2: "drop_collections M ?s1 (map fst (collections ?s1)) =
                 (Inr (), self\<lparr>trace := trace self @ ?gs @ ?cs\<rparr>)"
    using drop_collections_all [OF keys_c, of M]
      map_of_keys_filter [OF assms(2), of DeleteCollection "\<lambda>k. \<not> startswith_underscore k"]
    by simp
  have run: "dropAllCollections M self = (Inr (), self\<lparr>trace := trace self @ ?gs @ ?cs\<rparr>)"
    using step1 step2 by (simp add: dropAllCollections_def)
  have inj_g: "inj (\<lambda>(k, g). DeleteGraph k g)" and inj_c: "inj (\<lambda>(k, c). DeleteCollection k c)"
    by (auto simp add: inj_on_def)
  have dg: "distinct (graphs self)" and dk: "distinct ?kept"
    using assms by (simp_all add: distinct_fst)
  have count_g: "count_list (?gs @ ?cs) (DeleteGraph k g) =
                   (if (k, g) \<in> set (graphs self) then 1 else 0)" for k g
  proof -
    have "count_list ?gs (DeleteGraph k g) = count_list (graphs self) (k, g)"
      using count_list_map_inj [OF inj_g, of "graphs self" "(k, g)"] by simp
    moreover have "count_list ?cs (DeleteGraph k g) = 0"
      by (rule count_list_absent) auto
    ultimately show ?thesis
      by (simp add: count_list_distinct [OF dg])
  qed
  have count_c: "count_list (?gs @ ?cs) (DeleteCollection k c) =
                   (if (k, c) \<in> set (collections self) \<and> \<not> startswith_underscore k
                    then 1 else 0)" for k c
  proof -
    have "count_list ?cs (DeleteCollection k c) = count_list ?kept (k, c)"
      using count_list_map_inj [OF inj_c, of ?kept "(k, c)"] by simp
    moreover have "count_list ?gs (DeleteCollection k c) = 0"
      by (rule count_list_absent) auto
    ultimately show ?thesis
      by (simp add: count_list_distinct [OF dk])
  qed
  have no_req: "Request req \<notin> set (?gs @ ?cs)" for req
    by auto
  show ?thesis
    using run count_g count_c no_req by blast
qed

theorem dropAllCollections_deletes_witness:
  "dropAllCollections example_modules example_db =
     (Inr (), example_db\<lparr>trace :=
        [DeleteGraph ''Social'' social_obj, DeleteCollection ''Users'' users_obj,
         DeleteCollection ''notes'' notes_obj]\<rparr>)"
proof -
  have d: "distinct (map fst (graphs example_db))" "distinct (map fst (collections example_db))"
    by (simp_all add: example_db_def)
  show ?thesis
    using dropAllCollections_deletes [OF d, of example_modules]
    by (auto simp add: example_db_def)
qed

section \<open>DBHandle\<close>




end
